theory Spec2Isabelle
  imports Main
begin

section \<open>Python values, strings and failures\<close>

text \<open>
  A Python \<^verbatim>\<open>str\<close> is a sequence of Unicode code points, so it is modelled as a list of
  naturals; \<open>ustr\<close> reads an ASCII literal.  The empty list is the empty string, which is
  the only falsy string.
\<close>

type_synonym pystr = "nat list"

definition ustr :: "string \<Rightarrow> pystr" where
  "ustr s = map of_char s"

datatype pyval =
    PyNone
  | PyBool bool
  | PyInt int
  | PyStr pystr
  | PyList "pyval list"
  | PyCallable nat
  | PyObj nat

text \<open>
  Failures are values.  A \<^verbatim>\<open>ValidationError\<close> built from a list or a message carries its
  failures and belongs to no field; one built from a dictionary carries the failures of each
  field under the name of the field.
\<close>

datatype failure =
    Invalid pystr
  | MaxLengthExceeded nat nat
  | Blank
  | Message pystr

datatype error =
    NotImplementedError pystr
  | IndexError
  | AttributeError pystr
  | KeyError pystr
  | TypeError
  | ModuleNotFoundError pystr
  | ImportError pystr
  | ValidationError "failure list"
  | ValidationErrorDict "pystr \<rightharpoonup> failure list"
  | OtherError nat


section \<open>FormFieldBase: the field-plugin contract\<close>

text \<open>
  The four methods as \<^verbatim>\<open>FormFieldBase\<close> defines them.  \<open>label_lower\<close> is
  \<^verbatim>\<open>self._meta.label_lower\<close>.
\<close>

definition FormFieldBase_get_fields :: "pystr \<Rightarrow> error + 'f" where
  "FormFieldBase_get_fields label_lower =
     Inl (NotImplementedError (label_lower @ ustr '' needs a get_fields implementation''))"

definition FormFieldBase_get_initial :: "error + (pystr \<rightharpoonup> pyval)" where
  "FormFieldBase_get_initial = Inr Map.empty"

definition FormFieldBase_get_cleaners :: "error + 'c list" where
  "FormFieldBase_get_cleaners = Inr []"

definition FormFieldBase_get_loaders :: "pystr \<Rightarrow> error + 'l list" where
  "FormFieldBase_get_loaders label_lower =
     Inl (NotImplementedError (label_lower @ ustr '' needs a get_loaders implementation''))"

text \<open>
  A concrete plugin type is a subclass that may define each method itself.  A method
  call on a row runs the subclass's own definition when there is one and the inherited
  \<^verbatim>\<open>FormFieldBase\<close> method otherwise.
\<close>

record ('row, 'k, 'f, 'c, 'l) plugin_type =
  meta_label_lower :: pystr
  own_get_fields :: "('row \<Rightarrow> 'k \<Rightarrow> error + 'f) option"
  own_get_initial :: "('row \<Rightarrow> error + (pystr \<rightharpoonup> pyval)) option"
  own_get_cleaners :: "('row \<Rightarrow> error + 'c list) option"
  own_get_loaders :: "('row \<Rightarrow> error + 'l list) option"

definition get_fields ::
    "('row, 'k, 'f, 'c, 'l) plugin_type \<Rightarrow> 'row \<Rightarrow> 'k \<Rightarrow> error + 'f" where
  "get_fields cls self kwargs =
     (case own_get_fields cls of
        Some m \<Rightarrow> m self kwargs
      | None \<Rightarrow> FormFieldBase_get_fields (meta_label_lower cls))"

definition get_initial ::
    "('row, 'k, 'f, 'c, 'l) plugin_type \<Rightarrow> 'row \<Rightarrow> error + (pystr \<rightharpoonup> pyval)" where
  "get_initial cls self =
     (case own_get_initial cls of
        Some m \<Rightarrow> m self
      | None \<Rightarrow> FormFieldBase_get_initial)"

definition get_cleaners ::
    "('row, 'k, 'f, 'c, 'l) plugin_type \<Rightarrow> 'row \<Rightarrow> error + 'c list" where
  "get_cleaners cls self =
     (case own_get_cleaners cls of
        Some m \<Rightarrow> m self
      | None \<Rightarrow> FormFieldBase_get_cleaners)"

definition get_loaders ::
    "('row, 'k, 'f, 'c, 'l) plugin_type \<Rightarrow> 'row \<Rightarrow> error + 'l list" where
  "get_loaders cls self =
     (case own_get_loaders cls of
        Some m \<Rightarrow> m self
      | None \<Rightarrow> FormFieldBase_get_loaders (meta_label_lower cls))"


section \<open>FormField and its visibility policy\<close>

record FormField =
  name :: pystr
  label :: pystr
  is_required :: bool
  help_text :: pystr
  is_table_visible :: bool
  is_modal_visible :: bool
  is_card_visible :: bool
  is_modal_detail_visible :: bool
  is_visible :: bool
  is_editable :: bool
  is_required_to_move :: bool
  use_script :: bool
  execute_on_first_save :: bool
  execute_on_every_save :: bool
  python_script :: "pystr option"
  validation_python_script :: "pystr option"

definition should_show_field :: "'a FormField_scheme \<Rightarrow> bool \<Rightarrow> bool" where
  "should_show_field self is_update =
     (if \<not> is_visible self then False
      else if is_editable self then True
      else \<not> is_update)"


section \<open>SimpleFieldBase: choice parsing and default-value validation\<close>

record SimpleFieldBase = FormField +
  type :: pystr
  choices :: pystr
  placeholder :: pystr
  default_value :: pystr
  max_length :: "nat option"

text \<open>
  \<^verbatim>\<open>str.splitlines()\<close>: a line ends at a line boundary (LF, VT, FF, CR, FS, GS, RS, NEL, LS,
  PS; CR LF counts as one boundary), the boundaries are dropped, and a text that ends with
  a boundary has no empty last line.  \<open>cur\<close> holds the characters of the line being read.
\<close>

definition is_linebreak :: "nat \<Rightarrow> bool" where
  "is_linebreak c = (c \<in> set [10, 11, 12, 13, 28, 29, 30, 133, 8232, 8233])"

fun splitlines_from :: "pystr \<Rightarrow> pystr \<Rightarrow> pystr list" where
  "splitlines_from cur [] = (if cur = [] then [] else [cur])"
| "splitlines_from cur (c # cs) =
     (if is_linebreak c
      then cur # splitlines_from [] (if c = 13 \<and> cs \<noteq> [] \<and> hd cs = 10 then tl cs else cs)
      else splitlines_from (cur @ [c]) cs)"

definition splitlines :: "pystr \<Rightarrow> pystr list" where
  "splitlines s = splitlines_from [] s"

text \<open>
  \<^verbatim>\<open>str.strip()\<close> removes the leading and trailing characters for which
  \<^verbatim>\<open>str.isspace()\<close> holds.
\<close>

definition is_space :: "nat \<Rightarrow> bool" where
  "is_space c =
     ((9 \<le> c \<and> c \<le> 13) \<or> (28 \<le> c \<and> c \<le> 32) \<or> c = 133 \<or> c = 160 \<or> c = 5760
      \<or> (8192 \<le> c \<and> c \<le> 8202) \<or> c = 8232 \<or> c = 8233 \<or> c = 8239 \<or> c = 8287
      \<or> c = 12288)"

definition strip :: "pystr \<Rightarrow> pystr" where
  "strip s = rev (dropWhile is_space (rev (dropWhile is_space s)))"

text \<open>\<^verbatim>\<open>value.split(sep, 1)\<close> for a separator of one character: at most one split, at the
  first occurrence.\<close>

definition split_once :: "nat \<Rightarrow> pystr \<Rightarrow> pystr list" where
  "split_once sep s =
     (case dropWhile (\<lambda>c. c \<noteq> sep) s of
        [] \<Rightarrow> [s]
      | _ # rest \<Rightarrow> [takeWhile (\<lambda>c. c \<noteq> sep) s, rest])"

text \<open>The inner function \<^verbatim>\<open>_choice\<close> of \<^verbatim>\<open>get_choices\<close>; 124 is the pipe symbol.\<close>

definition choice :: "pystr \<Rightarrow> pystr \<times> pystr" where
  "choice value =
     (let parts = map strip (split_once 124 value)
      in if length parts = 1 then (value, value) else (parts ! 0, parts ! 1))"

definition get_choices :: "'a SimpleFieldBase_scheme \<Rightarrow> (pystr \<times> pystr) list" where
  "get_choices self = map choice (filter (\<lambda>value. value \<noteq> []) (splitlines (choices self)))"

text \<open>
  \<^verbatim>\<open>validation_error(message, field=..., exclude=...)\<close> of \<^verbatim>\<open>feincms3.utils\<close>: the failure is
  attached to the field, unless the field is among the excluded ones; then it is a failure of
  no field.  \<^verbatim>\<open>exclude\<close> is \<^verbatim>\<open>None\<close> or a collection of field names.
\<close>

definition excluded :: "pystr list option \<Rightarrow> pystr \<Rightarrow> bool" where
  "excluded exclude field = (case exclude of None \<Rightarrow> False | Some names \<Rightarrow> field \<in> set names)"

definition validation_error :: "pystr \<Rightarrow> pystr \<Rightarrow> pystr list option \<Rightarrow> error" where
  "validation_error message field exclude =
     (if excluded exclude field then ValidationError [Message message]
      else ValidationErrorDict [field \<mapsto> [Message message]])"

text \<open>
  The inherited \<^verbatim>\<open>Model.clean_fields(exclude)\<close> cleans every field that is not excluded,
  collects the failures in a dictionary under the names of the fields, and raises one
  \<^verbatim>\<open>ValidationError\<close> with that dictionary when it is not empty.  The two fields that
  \<^verbatim>\<open>clean_fields\<close> reads afterwards are spelled out: \<^verbatim>\<open>choices\<close> is a \<^verbatim>\<open>TextField\<close> that may not
  be blank; \<^verbatim>\<open>default_value\<close> is a \<^verbatim>\<open>CharField\<close> with \<^verbatim>\<open>blank=True\<close> and \<^verbatim>\<open>max_length=1000\<close>,
  so it is skipped when empty.  Cleaning leaves both strings as they are.  The failures of
  the other fields are the parameter \<open>other_errors\<close>, a list of pairs of a field name and its
  failures.
\<close>

definition field_errors ::
    "(pystr \<times> failure list) list \<Rightarrow> pystr list option \<Rightarrow> 'a SimpleFieldBase_scheme
     \<Rightarrow> (pystr \<times> failure list) list" where
  "field_errors other_errors exclude self =
     filter (\<lambda>(field, failures). field \<noteq> ustr ''choices'' \<and> field \<noteq> ustr ''default_value'')
            other_errors
     @ (if \<not> excluded exclude (ustr ''choices'') \<and> choices self = []
        then [(ustr ''choices'', [Blank])] else [])
     @ (if \<not> excluded exclude (ustr ''default_value'') \<and> default_value self \<noteq> []
           \<and> 1000 < length (default_value self)
        then [(ustr ''default_value'', [MaxLengthExceeded 1000 (length (default_value self))])]
        else [])"

definition Model_clean_fields ::
    "(pystr \<times> failure list) list \<Rightarrow> pystr list option \<Rightarrow> 'a SimpleFieldBase_scheme
     \<Rightarrow> error + unit" where
  "Model_clean_fields other_errors exclude self =
     (let errors = field_errors other_errors exclude self
      in if errors = [] then Inr () else Inl (ValidationErrorDict (map_of errors)))"

text \<open>
  \<^verbatim>\<open>clean_fields\<close>.  A failure of the inherited cleaning propagates.
  \<^verbatim>\<open>x not in dict(pairs)\<close> tests the first components of the pairs.
\<close>

definition default_value_message :: "pystr \<Rightarrow> pystr" where
  "default_value_message d =
     ustr ''The specified default value \"'' @ d
       @ ustr ''\" isn't part of the available choices.''"

definition clean_fields ::
    "(pystr \<times> failure list) list \<Rightarrow> pystr list option \<Rightarrow> 'a SimpleFieldBase_scheme
     \<Rightarrow> error + unit" where
  "clean_fields other_errors exclude self =
     (case Model_clean_fields other_errors exclude self of
        Inl e \<Rightarrow> Inl e
      | Inr _ \<Rightarrow>
          if choices self \<noteq> [] \<and> default_value self \<noteq> []
             \<and> default_value self \<notin> set (map fst (get_choices self))
          then Inl (validation_error (default_value_message (default_value self))
                      (ustr ''default_value'') exclude)
          else Inr ())"


section \<open>NameField\<close>

definition RANDOM_STRING_CHARS :: pystr where
  "RANDOM_STRING_CHARS = ustr ''abcdefghijklmnopqrstuvwxyz0123456789''"

text \<open>
  \<^verbatim>\<open>get_random_string(n, allowed_chars)\<close> of \<^verbatim>\<open>django.utils.crypto\<close> joins \<open>n\<close> characters,
  each \<^verbatim>\<open>secrets.choice(allowed_chars)\<close>.  The random source is the parameter \<open>rnd\<close>: the
  \<open>i\<close>-th draw picks the character at index \<open>rnd i mod length allowed_chars\<close>.
\<close>

definition get_random_string :: "(nat \<Rightarrow> nat) \<Rightarrow> nat \<Rightarrow> pystr \<Rightarrow> pystr" where
  "get_random_string rnd n allowed_chars =
     map (\<lambda>i. allowed_chars ! (rnd i mod length allowed_chars)) [0..<n]"

text \<open>
  \<^verbatim>\<open>NameField.to_python\<close>.  \<^verbatim>\<open>CharField.to_python\<close> returns a string or \<^verbatim>\<open>None\<close> as it is,
  so the value is \<open>None\<close> or a string; \<^verbatim>\<open>not value\<close> holds for \<^verbatim>\<open>None\<close> and for the empty
  string.
\<close>

definition NameField_to_python :: "(nat \<Rightarrow> nat) \<Rightarrow> pystr option \<Rightarrow> pystr" where
  "NameField_to_python rnd value =
     (case value of
        None \<Rightarrow> ustr ''field_'' @ get_random_string rnd 10 RANDOM_STRING_CHARS
      | Some s \<Rightarrow>
          if s = [] then ustr ''field_'' @ get_random_string rnd 10 RANDOM_STRING_CHARS
          else s)"

text \<open>
  The validator \<^verbatim>\<open>RegexValidator(r"^[a-z0-9_]+$")\<close> accepts a value when
  \<^verbatim>\<open>re.search\<close> finds a match.  Without \<^verbatim>\<open>re.MULTILINE\<close>, \<^verbatim>\<open>^\<close> matches at the start only,
  and \<^verbatim>\<open>$\<close> matches at the end of the string and also just before a newline that is the
  last character.  The greedy class takes the longest run of allowed characters; what is
  left must be empty or that one newline.
\<close>

definition name_char :: "nat \<Rightarrow> bool" where
  "name_char c = ((97 \<le> c \<and> c \<le> 122) \<or> (48 \<le> c \<and> c \<le> 57) \<or> c = 95)"

definition name_regex_search :: "pystr \<Rightarrow> bool" where
  "name_regex_search s =
     (takeWhile name_char s \<noteq> []
      \<and> (dropWhile name_char s = [] \<or> dropWhile name_char s = [10]))"

definition name_message :: pystr where
  "name_message =
     ustr ''Enter a value consisting only of lowercase letters, numbers and the underscore.''"

text \<open>
  The validators of the field: the regular expression, and the
  \<^verbatim>\<open>MaxLengthValidator\<close> that \<^verbatim>\<open>CharField\<close> adds for \<^verbatim>\<open>max_length=50\<close>.  All failures are
  collected.
\<close>

definition NameField_run_validators :: "pystr \<Rightarrow> failure list" where
  "NameField_run_validators s =
     (if name_regex_search s then [] else [Invalid name_message])
     @ (if 50 < length s then [MaxLengthExceeded 50 (length s)] else [])"

text \<open>
  \<^verbatim>\<open>Field.clean\<close> for a \<^verbatim>\<open>NameField\<close>: \<^verbatim>\<open>to_python\<close>, then the blank check of
  \<^verbatim>\<open>validate\<close>, then the validators.
\<close>

definition NameField_clean :: "(nat \<Rightarrow> nat) \<Rightarrow> pystr option \<Rightarrow> error + pystr" where
  "NameField_clean rnd value =
     (let v = NameField_to_python rnd value
      in if v = [] then Inl (ValidationError [Blank])
         else (case NameField_run_validators v of
                 [] \<Rightarrow> Inr v
               | errors \<Rightarrow> Inl (ValidationError errors)))"


section \<open>ConfiguredForm: the union query\<close>

record ConfiguredForm =
  pk :: nat
  name :: pystr
  form_type :: pystr

text \<open>
  What \<^verbatim>\<open>get_formfields_union\<close> reads of a plugin type: whether it is a subclass of
  \<^verbatim>\<open>FormFieldBase\<close>, the names \<^verbatim>\<open>_meta.get_field\<close> knows (for any other name it raises
  \<^verbatim>\<open>FieldDoesNotExist\<close>), the attributes of the Python class, and the rows of its table.  A row
  has its parent, the position the editor gave it (the \<^verbatim>\<open>ordering\<close> column of the plugin base)
  and a value for each column.
\<close>

record plugin_row =
  parent :: nat
  ordering :: int
  column_values :: "pystr \<Rightarrow> pyval"

record plugin_model =
  subclass_of_FormFieldBase :: bool
  meta_fields :: "pystr list"
  class_attributes :: "pystr \<rightharpoonup> pyval"
  objects :: "plugin_row list"

text \<open>The query expressions \<^verbatim>\<open>F(name)\<close> and \<^verbatim>\<open>Value(value, output_field=...)\<close>.\<close>

datatype output_field = TextField | BooleanField

datatype expression = F pystr | Value pyval output_field

definition FIELD_DEFAULTS :: "pystr \<rightharpoonup> pyval \<times> output_field" where
  "FIELD_DEFAULTS =
     map_of [(ustr ''is_collapsible'', (PyBool False, BooleanField)),
             (ustr ''is_collapse_below'', (PyBool False, BooleanField)),
             (ustr ''is_collapsed_by_default'', (PyBool False, BooleanField))]"

text \<open>The decimal digits of a natural number, as \<^verbatim>\<open>str(index)\<close> and the f-string give them.\<close>

fun str_nat :: "nat \<Rightarrow> pystr" where
  "str_nat n = (if n < 10 then [48 + n] else str_nat (n div 10) @ [48 + n mod 10])"

declare str_nat.simps [simp del]

definition alias_of :: "nat \<Rightarrow> pystr" where
  "alias_of index = ustr ''__val_'' @ str_nat index"

text \<open>The first loop: \<open>columns\<close> pairs each alias with its attribute; \<open>values\<close> is
  \<^verbatim>\<open>name\<close> followed by the aliases.  \<^verbatim>\<open>attributes or []\<close> reads \<^verbatim>\<open>None\<close> as the empty list.\<close>

definition make_columns :: "pystr list option \<Rightarrow> (pystr \<times> pystr) list" where
  "make_columns attributes =
     map (\<lambda>(index, attribute). (alias_of index, attribute))
         (enumerate 0 (case attributes of None \<Rightarrow> [] | Some as \<Rightarrow> as))"

definition make_values :: "(pystr \<times> pystr) list \<Rightarrow> pystr list" where
  "make_values columns = ustr ''name'' # map fst columns"

text \<open>\<^verbatim>\<open>getattr(plugin, attribute, None)\<close>.\<close>

definition getattr_or_None :: "plugin_model \<Rightarrow> pystr \<Rightarrow> pyval" where
  "getattr_or_None plugin attribute =
     (case class_attributes plugin attribute of None \<Rightarrow> PyNone | Some v \<Rightarrow> v)"

text \<open>The body of the inner loop: the expression annotated under the alias of one
  attribute.\<close>

definition annotation :: "plugin_model \<Rightarrow> pystr \<Rightarrow> expression" where
  "annotation plugin attribute =
     (if attribute \<in> set (meta_fields plugin) then F attribute
      else (let value = getattr_or_None plugin attribute
            in if value \<noteq> PyNone then Value value TextField
               else (case FIELD_DEFAULTS attribute of
                       None \<Rightarrow> Value (PyStr []) TextField
                     | Some (default_literal, field_type) \<Rightarrow> Value default_literal field_type)))"

definition annotations :: "plugin_model \<Rightarrow> (pystr \<times> pystr) list \<Rightarrow> (pystr \<rightharpoonup> expression)" where
  "annotations plugin columns =
     fold (\<lambda>(alias, attribute) m. m(alias \<mapsto> annotation plugin attribute)) columns Map.empty"

text \<open>
  A queryset describes a query and is not its rows: the model it selects from, the parent it
  filters on, its annotations, and the names \<^verbatim>\<open>values_list\<close> asks for, in that order.
  \<^verbatim>\<open>p.union(q, all=True)\<close> combines two queries into one.
\<close>

record queryset =
  from_model :: plugin_model
  parent_filter :: "nat option"
  annotated :: "pystr \<rightharpoonup> expression"
  projected :: "pystr list"

definition objects_filter_parent :: "plugin_model \<Rightarrow> 'a ConfiguredForm_scheme \<Rightarrow> queryset" where
  "objects_filter_parent plugin self =
     \<lparr>from_model = plugin, parent_filter = Some (pk self), annotated = Map.empty,
      projected = []\<rparr>"

definition annotate :: "queryset \<Rightarrow> (pystr \<rightharpoonup> expression) \<Rightarrow> queryset" where
  "annotate qs anns = qs\<lparr>annotated := annotated qs ++ anns\<rparr>"

definition values_list :: "queryset \<Rightarrow> pystr list \<Rightarrow> queryset" where
  "values_list qs values = qs\<lparr>projected := values\<rparr>"

datatype query = Select queryset | UnionAll query query

definition union_all :: "query \<Rightarrow> query \<Rightarrow> query" where
  "union_all p q = UnionAll p q"

text \<open>The queries a combined query is made of, from the left; the first of them is the one
  whose \<^verbatim>\<open>values_list\<close> names the entries of the tuples.\<close>

fun components :: "query \<Rightarrow> queryset list" where
  "components (Select qs) = [qs]"
| "components (UnionAll p q) = components p @ components q"

fun first_component :: "query \<Rightarrow> queryset" where
  "first_component (Select qs) = qs"
| "first_component (UnionAll p q) = first_component p"

text \<open>
  Running a query is the storage's work and a parameter of the model: for a query, the rows
  it answers with, in the order it answers, each row a value for every projected name.  How
  a backend evaluates an expression, converts a literal to its output field, types the
  columns of a union and orders the rows is all in this parameter.  Iterating the queryset
  gives one tuple per row, with the entries in the order \<^verbatim>\<open>values_list\<close> asked for.
\<close>

type_synonym storage = "query \<Rightarrow> (pystr \<Rightarrow> pyval) list"

definition fetch :: "storage \<Rightarrow> query \<Rightarrow> pyval list list" where
  "fetch db q = map (\<lambda>row. map row (projected (first_component q))) (db q)"

text \<open>The second loop: one projection per plugin type that is a subclass of
  \<^verbatim>\<open>FormFieldBase\<close>; any other entry is passed over.\<close>

fun plugin_querysets ::
    "'a ConfiguredForm_scheme \<Rightarrow> (pystr \<times> pystr) list \<Rightarrow> pystr list \<Rightarrow> plugin_model list
     \<Rightarrow> query list" where
  "plugin_querysets self columns values [] = []"
| "plugin_querysets self columns values (plugin # plugins) =
     (if \<not> subclass_of_FormFieldBase plugin then plugin_querysets self columns values plugins
      else Select (values_list
                     (annotate (objects_filter_parent plugin self) (annotations plugin columns))
                     values)
           # plugin_querysets self columns values plugins)"

text \<open>The combined query \<^verbatim>\<open>qs\<close>.  \<^verbatim>\<open>querysets[0]\<close> raises \<^verbatim>\<open>IndexError\<close> on the empty list;
  \<^verbatim>\<open>reduce\<close> folds the union over the rest from the left.\<close>

definition union_query ::
    "'a ConfiguredForm_scheme \<Rightarrow> plugin_model list \<Rightarrow> pystr list option \<Rightarrow> error + query" where
  "union_query self plugins attributes =
     (let columns = make_columns attributes;
          values = make_values columns;
          querysets = plugin_querysets self columns values plugins
      in case querysets of
           [] \<Rightarrow> Inl IndexError
         | q # qs \<Rightarrow> Inr (foldl union_all q qs))"

text \<open>The dict comprehension over \<^verbatim>\<open>zip(columns, row[1:])\<close>: a later pair with the same
  attribute replaces an earlier one.\<close>

definition row_dict :: "(pystr \<times> pystr) list \<Rightarrow> pyval list \<Rightarrow> (pystr \<rightharpoonup> pyval)" where
  "row_dict columns vals =
     fold (\<lambda>(column, value) d. d(snd column \<mapsto> value)) (zip columns vals) Map.empty"

text \<open>\<^verbatim>\<open>get_formfields_union\<close>: the combined query is built, run, and each tuple becomes a
  pair of the name and the mapping from attribute to value.\<close>

definition get_formfields_union ::
    "storage \<Rightarrow> 'a ConfiguredForm_scheme \<Rightarrow> plugin_model list \<Rightarrow> pystr list option
     \<Rightarrow> error + (pyval \<times> (pystr \<rightharpoonup> pyval)) list" where
  "get_formfields_union db self plugins attributes =
     (case union_query self plugins attributes of
        Inl e \<Rightarrow> Inl e
      | Inr qs \<Rightarrow>
          Inr (map (\<lambda>row. (row ! 0, row_dict (make_columns attributes) (drop 1 row)))
                   (fetch db qs)))"


section \<open>FormType: attributes given as dotted paths\<close>

text \<open>
  What the code reads of its surroundings: which code points beyond ASCII are alphanumeric
  (for \<^verbatim>\<open>\w\<close>), what \<^verbatim>\<open>importlib.import_module\<close> gives for a module path (a failure, or the
  attributes of the module), and what calling a callable with a form returns.
\<close>

record python_env =
  unicode_alnum :: "nat \<Rightarrow> bool"
  import_module :: "pystr \<Rightarrow> error + (pystr \<rightharpoonup> pyval)"
  call_with_form :: "nat \<Rightarrow> ConfiguredForm \<Rightarrow> error + pyval"

text \<open>
  A \<^verbatim>\<open>FormType\<close> is a \<^verbatim>\<open>dict\<close> subclass: \<open>items\<close> are the keyword arguments it was built from,
  \<open>instance_dict\<close> the attributes that \<^verbatim>\<open>setattr\<close> has stored on the instance.
\<close>

record FormType =
  items :: "pystr \<rightharpoonup> pyval"
  instance_dict :: "pystr \<rightharpoonup> pyval"

definition REQUIRED :: "pystr list" where
  "REQUIRED = [ustr ''key'', ustr ''label'', ustr ''regions'', ustr ''form_class'',
               ustr ''validate'']"

text \<open>The defaults of \<^verbatim>\<open>__init__\<close>: the class \<^verbatim>\<open>forms.Form\<close> and the hook that returns no
  errors, two callables.\<close>

definition forms_Form :: pyval where
  "forms_Form = PyCallable 0"

definition default_validate :: pyval where
  "default_validate = PyCallable 1"

definition setdefault :: "(pystr \<rightharpoonup> pyval) \<Rightarrow> pystr \<Rightarrow> pyval \<Rightarrow> (pystr \<rightharpoonup> pyval)" where
  "setdefault kwargs k v = (case kwargs k of None \<Rightarrow> kwargs(k \<mapsto> v) | Some _ \<Rightarrow> kwargs)"

text \<open>\<^verbatim>\<open>FormType.__init__\<close>; \<^verbatim>\<open>Type.__init__\<close> raises \<^verbatim>\<open>TypeError\<close> when a required argument is
  missing.\<close>

definition FormType_init :: "(pystr \<rightharpoonup> pyval) \<Rightarrow> error + FormType" where
  "FormType_init kwargs =
     (let kwargs1 = setdefault kwargs (ustr ''form_class'') forms_Form;
          kwargs2 = setdefault kwargs1 (ustr ''validate'') default_validate
      in if list_all (\<lambda>k. kwargs2 k \<noteq> None) REQUIRED
         then Inr \<lparr>items = kwargs2, instance_dict = Map.empty\<rparr>
         else Inl TypeError)"

text \<open>\<^verbatim>\<open>Type.__getattr__\<close> of \<^verbatim>\<open>content_editor.models\<close>: the item of that name, or
  \<^verbatim>\<open>AttributeError\<close>.\<close>

definition Type_getattr :: "FormType \<Rightarrow> pystr \<Rightarrow> error + pyval" where
  "Type_getattr self attr =
     (case items self attr of None \<Rightarrow> Inl (AttributeError attr) | Some v \<Rightarrow> Inr v)"

text \<open>
  \<^verbatim>\<open>re.match(r"^\w+\.([\w\.]+)+$", value)\<close>: a non-empty run of word characters, a dot (46),
  a non-empty run of word characters and dots, and then the end of the string or a newline
  that is its last character.  Both runs are greedy, and a shorter run cannot match since
  the character after it would belong to the run.
\<close>

definition word_char :: "python_env \<Rightarrow> nat \<Rightarrow> bool" where
  "word_char env c =
     ((48 \<le> c \<and> c \<le> 57) \<or> (65 \<le> c \<and> c \<le> 90) \<or> (97 \<le> c \<and> c \<le> 122) \<or> c = 95
      \<or> (128 \<le> c \<and> unicode_alnum env c))"

definition dotted_path_match :: "python_env \<Rightarrow> pystr \<Rightarrow> bool" where
  "dotted_path_match env s =
     (takeWhile (word_char env) s \<noteq> []
      \<and> (case dropWhile (word_char env) s of
            [] \<Rightarrow> False
          | c # rest \<Rightarrow>
              c = 46
              \<and> takeWhile (\<lambda>c. word_char env c \<or> c = 46) rest \<noteq> []
              \<and> (dropWhile (\<lambda>c. word_char env c \<or> c = 46) rest = []
                   \<or> dropWhile (\<lambda>c. word_char env c \<or> c = 46) rest = [10])))"

text \<open>
  \<^verbatim>\<open>import_string\<close> of \<^verbatim>\<open>django.utils.module_loading\<close>: split at the last dot, import the
  module, read the attribute.  A path without a dot and a module without the attribute give
  \<^verbatim>\<open>ImportError\<close>; a failure of the import itself propagates.
\<close>

definition rsplit_dot :: "pystr \<Rightarrow> (pystr \<times> pystr) option" where
  "rsplit_dot s =
     (if 46 \<in> set s
      then Some (rev (tl (dropWhile (\<lambda>c. c \<noteq> 46) (rev s))),
                 rev (takeWhile (\<lambda>c. c \<noteq> 46) (rev s)))
      else None)"

definition import_string :: "python_env \<Rightarrow> pystr \<Rightarrow> error + pyval" where
  "import_string env dotted_path =
     (case rsplit_dot dotted_path of
        None \<Rightarrow> Inl (ImportError dotted_path)
      | Some (module_path, class_name) \<Rightarrow>
          (case import_module env module_path of
             Inl e \<Rightarrow> Inl e
           | Inr module \<Rightarrow>
               (case module class_name of
                  None \<Rightarrow> Inl (ImportError dotted_path)
                | Some v \<Rightarrow> Inr v)))"

text \<open>
  \<^verbatim>\<open>FormType.__getattr__\<close>.  \<^verbatim>\<open>contextlib.suppress(ModuleNotFoundError)\<close> swallows that failure
  (and no other), leaving \<open>value\<close> as it was; any other failure leaves the method before
  \<^verbatim>\<open>setattr\<close>.  The result is the value and the instance with the value stored.
\<close>

definition FormType_getattr ::
    "python_env \<Rightarrow> FormType \<Rightarrow> pystr \<Rightarrow> error + pyval \<times> FormType" where
  "FormType_getattr env self attr =
     (case Type_getattr self attr of
        Inl e \<Rightarrow> Inl e
      | Inr value \<Rightarrow>
          (case (case value of
                   PyStr s \<Rightarrow>
                     if dotted_path_match env s
                     then (case import_string env s of
                             Inl (ModuleNotFoundError m) \<Rightarrow> Inr value
                           | Inl e \<Rightarrow> Inl e
                           | Inr v \<Rightarrow> Inr v)
                     else Inr value
                 | _ \<Rightarrow> Inr value) of
             Inl e \<Rightarrow> Inl e
           | Inr value' \<Rightarrow>
               Inr (value', self\<lparr>instance_dict := (instance_dict self)(attr \<mapsto> value')\<rparr>)))"

text \<open>
  The attribute access \<^verbatim>\<open>self.attr\<close>, for a name that the classes do not define: an attribute
  stored on the instance is returned as it is; \<^verbatim>\<open>__getattr__\<close> runs only when there is none.
\<close>

definition attribute_access ::
    "python_env \<Rightarrow> FormType \<Rightarrow> pystr \<Rightarrow> error + pyval \<times> FormType" where
  "attribute_access env self attr =
     (case instance_dict self attr of
        Some v \<Rightarrow> Inr (v, self)
      | None \<Rightarrow> FormType_getattr env self attr)"


section \<open>ConfiguredForm: form types and regions\<close>

text \<open>
  A model class as \<^verbatim>\<open>fill_form_choices\<close> sees it.  \<open>types\<close> is the dictionary that the \<^verbatim>\<open>type\<close>
  property of the class looks the form type up in; a class that has not got the property
  has \<open>None\<close>.
\<close>

record form_model =
  is_ConfiguredForm_subclass :: bool
  meta_abstract :: bool
  FORMS :: "FormType list"
  form_type_choices :: "(pyval \<times> pyval) list"
  types :: "(pyval \<rightharpoonup> FormType) option"

text \<open>\<^verbatim>\<open>[(row["key"], row["label"]) for row in sender.FORMS]\<close>: the items themselves, with
  \<^verbatim>\<open>KeyError\<close> for a missing one.\<close>

fun row_choices :: "FormType list \<Rightarrow> error + (pyval \<times> pyval) list" where
  "row_choices [] = Inr []"
| "row_choices (row # rows) =
     (case items row (ustr ''key'') of
        None \<Rightarrow> Inl (KeyError (ustr ''key''))
      | Some k \<Rightarrow>
          (case items row (ustr ''label'') of
             None \<Rightarrow> Inl (KeyError (ustr ''label''))
           | Some l \<Rightarrow>
               (case row_choices rows of
                  Inl e \<Rightarrow> Inl e
                | Inr rest \<Rightarrow> Inr ((k, l) # rest))))"

text \<open>\<^verbatim>\<open>{type.key: type for type in sender.FORMS}\<close>, from the left: a later type with the same
  key replaces an earlier one.  \<^verbatim>\<open>type.key\<close> is an attribute access, which stores the key on
  the form type.  The result is the dictionary and the form types as the accesses left them.\<close>

fun build_types ::
    "python_env \<Rightarrow> FormType list \<Rightarrow> (pyval \<rightharpoonup> FormType)
     \<Rightarrow> error + (pyval \<rightharpoonup> FormType) \<times> FormType list" where
  "build_types env [] acc = Inr (acc, [])"
| "build_types env (t # ts) acc =
     (case attribute_access env t (ustr ''key'') of
        Inl e \<Rightarrow> Inl e
      | Inr (k, t') \<Rightarrow>
          (case build_types env ts (acc(k \<mapsto> t')) of
             Inl e \<Rightarrow> Inl e
           | Inr (tys, ts') \<Rightarrow> Inr (tys, t' # ts')))"

definition fill_form_choices :: "python_env \<Rightarrow> form_model \<Rightarrow> error + form_model" where
  "fill_form_choices env sender =
     (if is_ConfiguredForm_subclass sender \<and> \<not> meta_abstract sender
      then (case row_choices (FORMS sender) of
              Inl e \<Rightarrow> Inl e
            | Inr cs \<Rightarrow>
                (case build_types env (FORMS sender) Map.empty of
                   Inl e \<Rightarrow> Inl e
                 | Inr (tys, ts') \<Rightarrow>
                     Inr (sender\<lparr>FORMS := ts', form_type_choices := cs, types := Some tys\<rparr>)))
      else Inr sender)"

text \<open>
  The property \<^verbatim>\<open>regions\<close>.  \<^verbatim>\<open>self.type\<close> is \<^verbatim>\<open>types.get(self.form_type)\<close>, and raises
  \<^verbatim>\<open>AttributeError\<close> on a class without the property; \<^verbatim>\<open>.regions\<close> on \<^verbatim>\<open>None\<close> raises
  \<^verbatim>\<open>AttributeError\<close> too.  \<^verbatim>\<open>AttributeError\<close> and \<^verbatim>\<open>KeyError\<close> are caught.  The result is the
  value (which \<^verbatim>\<open>cached_property\<close> then keeps on the form) and the class with the form type
  as the access left it.
\<close>

definition regions ::
    "python_env \<Rightarrow> form_model \<Rightarrow> ConfiguredForm \<Rightarrow> error + pyval \<times> form_model" where
  "regions env cls self =
     (case types cls of
        None \<Rightarrow> Inr (PyList [], cls)
      | Some tys \<Rightarrow>
          (case tys (PyStr (form_type self)) of
             None \<Rightarrow> Inr (PyList [], cls)
           | Some t \<Rightarrow>
               (case attribute_access env t (ustr ''regions'') of
                  Inl (AttributeError a) \<Rightarrow> Inr (PyList [], cls)
                | Inl (KeyError k) \<Rightarrow> Inr (PyList [], cls)
                | Inl e \<Rightarrow> Inl e
                | Inr (r, t') \<Rightarrow>
                    (case r of
                       PyCallable f \<Rightarrow>
                         (case call_with_form env f self of
                            Inl e \<Rightarrow> Inl e
                          | Inr v \<Rightarrow>
                              Inr (v, cls\<lparr>types := Some (tys(PyStr (form_type self) \<mapsto> t'))\<rparr>))
                     | _ \<Rightarrow>
                         Inr (r, cls\<lparr>types := Some (tys(PyStr (form_type self) \<mapsto> t'))\<rparr>)))))"


section \<open>Example data\<close>

text \<open>A select field with two choices, used to run the theorems on concrete rows.\<close>

definition example_field :: SimpleFieldBase where
  "example_field =
     \<lparr>FormField.name = ustr ''colour'', label = ustr ''Colour'', is_required = True, help_text = [],
      is_table_visible = True, is_modal_visible = True, is_card_visible = False,
      is_modal_detail_visible = True, is_visible = True, is_editable = True,
      is_required_to_move = False, use_script = False, execute_on_first_save = False,
      execute_on_every_save = False, python_script = None, validation_python_script = None,
      type = ustr ''select'', choices = ustr ''a|Label A'' @ [10] @ ustr ''solo'',
      placeholder = [], default_value = ustr ''solo'', max_length = None\<rparr>"


text \<open>
  A form and four plugin types.  \<open>simplefield_model\<close>, \<open>duration_model\<close> and \<open>plaintext_model\<close>
  are \<^verbatim>\<open>SimpleField\<close>, \<^verbatim>\<open>Duration\<close> and \<^verbatim>\<open>PlainText\<close> of the test application; only the first
  is a subclass of \<^verbatim>\<open>FormFieldBase\<close>.  \<open>rating_model\<close> is a further field type as a project
  adds one: a subclass of \<^verbatim>\<open>FormFieldBase\<close> with a class attribute \<^verbatim>\<open>type\<close>, a class attribute
  \<^verbatim>\<open>is_collapsible\<close> that is \<^verbatim>\<open>None\<close>, and no column of either name.  The editor has placed the
  rating field between the two simple fields of the form.
\<close>

definition example_form :: ConfiguredForm where
  "example_form = \<lparr>pk = 1, name = ustr ''Contact'', form_type = ustr ''contact''\<rparr>"

definition simplefield_model :: plugin_model where
  "simplefield_model =
     \<lparr>subclass_of_FormFieldBase = True,
      meta_fields =
        [ustr ''id'', ustr ''parent'', ustr ''region'', ustr ''ordering'', ustr ''name'',
         ustr ''label'', ustr ''is_required'', ustr ''help_text'', ustr ''is_table_visible'',
         ustr ''is_modal_visible'', ustr ''is_card_visible'', ustr ''is_modal_detail_visible'',
         ustr ''is_visible'', ustr ''is_editable'', ustr ''is_required_to_move'',
         ustr ''use_script'', ustr ''execute_on_first_save'', ustr ''execute_on_every_save'',
         ustr ''python_script'', ustr ''validation_python_script'', ustr ''type'',
         ustr ''choices'', ustr ''placeholder'', ustr ''default_value'', ustr ''max_length''],
      class_attributes = Map.empty,
      objects =
        [\<lparr>parent = 1, ordering = 10,
          column_values = (\<lambda>c. if c = ustr ''name'' then PyStr (ustr ''first'')
                                else if c = ustr ''type'' then PyStr (ustr ''text'') else PyNone)\<rparr>,
         \<lparr>parent = 2, ordering = 10,
          column_values = (\<lambda>c. if c = ustr ''name'' then PyStr (ustr ''other'')
                                else if c = ustr ''type'' then PyStr (ustr ''url'') else PyNone)\<rparr>,
         \<lparr>parent = 1, ordering = 30,
          column_values = (\<lambda>c. if c = ustr ''name'' then PyStr (ustr ''third'')
                                else if c = ustr ''type'' then PyStr (ustr ''email'') else PyNone)\<rparr>]\<rparr>"

definition rating_model :: plugin_model where
  "rating_model =
     \<lparr>subclass_of_FormFieldBase = True,
      meta_fields = [ustr ''id'', ustr ''parent'', ustr ''region'', ustr ''ordering'',
                     ustr ''name'', ustr ''label''],
      class_attributes = [ustr ''type'' \<mapsto> PyStr (ustr ''rating''),
                          ustr ''is_collapsible'' \<mapsto> PyNone],
      objects =
        [\<lparr>parent = 1, ordering = 20,
          column_values = (\<lambda>c. if c = ustr ''name'' then PyStr (ustr ''second'') else PyNone)\<rparr>]\<rparr>"

definition duration_model :: plugin_model where
  "duration_model =
     \<lparr>subclass_of_FormFieldBase = False,
      meta_fields = [ustr ''id'', ustr ''parent'', ustr ''region'', ustr ''ordering'',
                     ustr ''label_from'', ustr ''label_until'', ustr ''name''],
      class_attributes = Map.empty,
      objects =
        [\<lparr>parent = 1, ordering = 40,
          column_values = (\<lambda>c. if c = ustr ''name'' then PyStr (ustr ''stay'') else PyNone)\<rparr>]\<rparr>"

definition plaintext_model :: plugin_model where
  "plaintext_model =
     \<lparr>subclass_of_FormFieldBase = False,
      meta_fields = [ustr ''id'', ustr ''parent'', ustr ''region'', ustr ''ordering'',
                     ustr ''text''],
      class_attributes = Map.empty,
      objects = [\<lparr>parent = 1, ordering = 50, column_values = (\<lambda>c. PyNone)\<rparr>]\<rparr>"

text \<open>
  Two storages.  \<open>table_by_table\<close> answers a union of projections that have no annotations as
  a database does when the query has no \<^verbatim>\<open>ORDER BY\<close>: the rows of the first table that belong
  to the parent, then those of the next, each with the values of its columns.
  \<open>example_answer\<close> is the answer of a database that holds the tables above to the union over
  \<open>simplefield_model\<close> and \<open>rating_model\<close> for the attributes \<^verbatim>\<open>type\<close>, \<^verbatim>\<open>is_collapsible\<close> and a
  third one that neither type has: the two simple fields, then the rating field.
\<close>

definition selected_rows :: "queryset \<Rightarrow> plugin_row list" where
  "selected_rows qs =
     filter (\<lambda>row. case parent_filter qs of None \<Rightarrow> True | Some p \<Rightarrow> parent row = p)
            (objects (from_model qs))"

definition table_by_table :: storage where
  "table_by_table q = concat (map (\<lambda>qs. map column_values (selected_rows qs)) (components q))"

definition example_answer :: storage where
  "example_answer q =
     [(\<lambda>n. if n = ustr ''name'' then PyStr (ustr ''first'')
            else if n = alias_of 0 then PyStr (ustr ''text'')
            else if n = alias_of 1 then PyBool False
            else PyStr []),
      (\<lambda>n. if n = ustr ''name'' then PyStr (ustr ''third'')
            else if n = alias_of 0 then PyStr (ustr ''email'')
            else if n = alias_of 1 then PyBool False
            else PyStr []),
      (\<lambda>n. if n = ustr ''name'' then PyStr (ustr ''second'')
            else if n = alias_of 0 then PyStr (ustr ''rating'')
            else if n = alias_of 1 then PyBool False
            else PyStr [])]"


text \<open>
  The two form types of the test application, a module that defines the hooks they name, and
  two variants of the first form type: one names an attribute that the module does not have,
  one names a module that does not exist.  \<open>empty_env\<close> has no module at all.
\<close>

definition example_env :: python_env where
  "example_env =
     \<lparr>unicode_alnum = (\<lambda>c. False),
      import_module = (\<lambda>m. if m = ustr ''testapp.forms''
                            then Inr [ustr ''validate_contact_form'' \<mapsto> PyCallable 10,
                                      ustr ''process_contact_form'' \<mapsto> PyCallable 11,
                                      ustr ''OtherFieldsForm'' \<mapsto> PyCallable 12]
                            else Inl (ModuleNotFoundError m)),
      call_with_form = (\<lambda>f form. Inr (PyList []))\<rparr>"

definition contact_type :: FormType where
  "contact_type =
     \<lparr>items = [ustr ''key'' \<mapsto> PyStr (ustr ''contact''),
               ustr ''label'' \<mapsto> PyStr (ustr ''contact form''),
               ustr ''regions'' \<mapsto> PyList [PyObj 1],
               ustr ''validate'' \<mapsto> PyStr (ustr ''testapp.forms.validate_contact_form''),
               ustr ''process'' \<mapsto> PyStr (ustr ''testapp.forms.process_contact_form''),
               ustr ''form_class'' \<mapsto> forms_Form],
      instance_dict = Map.empty\<rparr>"

definition other_fields_type :: FormType where
  "other_fields_type =
     \<lparr>items = [ustr ''key'' \<mapsto> PyStr (ustr ''other-fields''),
               ustr ''label'' \<mapsto> PyStr (ustr ''other fields''),
               ustr ''regions'' \<mapsto> PyList [],
               ustr ''form_class'' \<mapsto> PyStr (ustr ''testapp.forms.OtherFieldsForm''),
               ustr ''validate'' \<mapsto> default_validate],
      instance_dict = Map.empty\<rparr>"

definition example_model :: form_model where
  "example_model =
     \<lparr>is_ConfiguredForm_subclass = True, meta_abstract = False,
      FORMS = [contact_type, other_fields_type], form_type_choices = [], types = None\<rparr>"

definition broken_hook_type :: FormType where
  "broken_hook_type =
     contact_type\<lparr>items := (items contact_type)
       (ustr ''validate'' \<mapsto> PyStr (ustr ''testapp.forms.missing_hook''))\<rparr>"

definition plain_label_type :: FormType where
  "plain_label_type =
     contact_type\<lparr>items := (items contact_type)
       (ustr ''validate'' \<mapsto> PyStr (ustr ''nomodule.hook''))\<rparr>"

definition empty_env :: python_env where
  "empty_env =
     \<lparr>unicode_alnum = (\<lambda>c. False),
      import_module = (\<lambda>m. Inl (ModuleNotFoundError m)),
      call_with_form = (\<lambda>f form. Inl TypeError)\<rparr>"


section \<open>Theorems\<close>

subsection \<open>The field-plugin contract\<close>

text \<open>
  Claim C8.  On the base contract \<^verbatim>\<open>get_initial\<close> returns the empty mapping and
  \<^verbatim>\<open>get_cleaners\<close> the empty sequence, and a row of a concrete type that defines neither
  \<^verbatim>\<open>get_fields\<close> nor \<^verbatim>\<open>get_loaders\<close> gets a \<^verbatim>\<open>NotImplementedError\<close> from each, naming the
  model and the missing method.
\<close>

theorem base_contract_defaults:
  "(own_get_initial cls = None \<longrightarrow> get_initial cls self = Inr Map.empty)
   \<and> (own_get_cleaners cls = None \<longrightarrow> get_cleaners cls self = Inr [])
   \<and> (own_get_fields cls = None \<longrightarrow>
        get_fields cls self kwargs =
          Inl (NotImplementedError
                (meta_label_lower cls @ ustr '' needs a get_fields implementation'')))
   \<and> (own_get_loaders cls = None \<longrightarrow>
        get_loaders cls self =
          Inl (NotImplementedError
                (meta_label_lower cls @ ustr '' needs a get_loaders implementation'')))"
  by (simp add: get_initial_def get_cleaners_def get_fields_def get_loaders_def
      FormFieldBase_get_initial_def FormFieldBase_get_cleaners_def
      FormFieldBase_get_fields_def FormFieldBase_get_loaders_def)

theorem base_contract_defaults_witness:
  "own_get_initial \<lparr>meta_label_lower = ustr ''testapp.plaintext'', own_get_fields = None,
       own_get_initial = None, own_get_cleaners = None, own_get_loaders = None\<rparr> = None
   \<and> get_initial (\<lparr>meta_label_lower = ustr ''testapp.plaintext'', own_get_fields = None,
       own_get_initial = None, own_get_cleaners = None, own_get_loaders = None\<rparr>
         :: (unit, unit, unit, unit, unit) plugin_type) () = Inr Map.empty
   \<and> get_cleaners (\<lparr>meta_label_lower = ustr ''testapp.plaintext'', own_get_fields = None,
       own_get_initial = None, own_get_cleaners = None, own_get_loaders = None\<rparr>
         :: (unit, unit, unit, unit, unit) plugin_type) () = Inr []
   \<and> get_fields (\<lparr>meta_label_lower = ustr ''testapp.plaintext'', own_get_fields = None,
       own_get_initial = None, own_get_cleaners = None, own_get_loaders = None\<rparr>
         :: (unit, unit, unit, unit, unit) plugin_type) () () =
       Inl (NotImplementedError (ustr ''testapp.plaintext needs a get_fields implementation''))
   \<and> get_loaders (\<lparr>meta_label_lower = ustr ''testapp.plaintext'', own_get_fields = None,
       own_get_initial = None, own_get_cleaners = None, own_get_loaders = None\<rparr>
         :: (unit, unit, unit, unit, unit) plugin_type) () =
       Inl (NotImplementedError (ustr ''testapp.plaintext needs a get_loaders implementation''))"
  using base_contract_defaults [of "\<lparr>meta_label_lower = ustr ''testapp.plaintext'', own_get_fields = None,
       own_get_initial = None, own_get_cleaners = None, own_get_loaders = None\<rparr>
         :: (unit, unit, unit, unit, unit) plugin_type" "()" "()"]
  by (simp add: ustr_def)


subsection \<open>Visibility\<close>

text \<open>
  Claim C5.  The truth table of \<^verbatim>\<open>should_show_field\<close>: a field that is not visible is
  never shown; a visible and editable field is always shown; a visible field that is not
  editable is shown when \<^verbatim>\<open>is_update\<close> is false and hidden when it is true.
\<close>

theorem should_show_field_truth_table:
  "should_show_field (self\<lparr>is_visible := False, is_editable := e\<rparr>) u = False
   \<and> should_show_field (self\<lparr>is_visible := True, is_editable := True\<rparr>) u = True
   \<and> should_show_field (self\<lparr>is_visible := True, is_editable := False\<rparr>) False = True
   \<and> should_show_field (self\<lparr>is_visible := True, is_editable := False\<rparr>) True = False"
  by (simp add: should_show_field_def)


subsection \<open>Choice parsing\<close>

lemma split_once_length: "length (split_once sep s) = (if sep \<in> set s then 2 else 1)"
proof (cases "dropWhile (\<lambda>c. c \<noteq> sep) s")
  case Nil
  then have "sep \<notin> set s" by (auto simp: dropWhile_eq_Nil_conv)
  then show ?thesis unfolding split_once_def Nil by simp
next
  case (Cons a rest)
  have "dropWhile (\<lambda>c. c \<noteq> sep) s \<noteq> []" using Cons by simp
  then have "sep \<in> set s" by (auto simp: dropWhile_eq_Nil_conv)
  then show ?thesis unfolding split_once_def Cons by simp
qed

lemma choice_no_pipe: "124 \<notin> set l \<Longrightarrow> choice l = (l, l)"
  using split_once_length [of 124 l] by (simp add: choice_def Let_def)

lemma choice_pipe:
  assumes "124 \<in> set l"
  shows "choice l = (strip (takeWhile (\<lambda>c. c \<noteq> 124) l), strip (tl (dropWhile (\<lambda>c. c \<noteq> 124) l)))"
proof -
  from assms have "dropWhile (\<lambda>c. c \<noteq> 124) l \<noteq> []" by (auto simp: dropWhile_eq_Nil_conv)
  then obtain a rest where d: "dropWhile (\<lambda>c. c \<noteq> 124) l = a # rest" by (cases "dropWhile (\<lambda>c. c \<noteq> 124) l") auto
  show ?thesis unfolding choice_def split_once_def d by simp
qed

lemma choice_closed_form:
  "choice l = (if 124 \<in> set l
               then (strip (takeWhile (\<lambda>c. c \<noteq> 124) l), strip (tl (dropWhile (\<lambda>c. c \<noteq> 124) l)))
               else (l, l))"
  by (simp add: choice_no_pipe choice_pipe)

lemma splitlines_from_plain:
  "\<forall>c\<in>set l. \<not> is_linebreak c \<Longrightarrow> splitlines_from cur (l @ rest) = splitlines_from (cur @ l) rest"
  by (induction l arbitrary: cur) simp_all

lemma splitlines_from_LF: "splitlines_from cur (10 # rest) = cur # splitlines_from [] rest"
  by (simp add: is_linebreak_def)

lemma splitlines_from_terminated:
  "\<forall>l\<in>set ls. \<forall>c\<in>set l. \<not> is_linebreak c \<Longrightarrow> \<forall>c\<in>set lastl. \<not> is_linebreak c \<Longrightarrow>
   splitlines_from [] (concat (map (\<lambda>l. l @ [10]) ls) @ lastl) = ls @ (if lastl = [] then [] else [lastl])"
proof (induction ls)
  case Nil
  then show ?case using splitlines_from_plain [of lastl "[]" "[]"] by simp
next
  case (Cons l ls)
  have "splitlines_from [] (concat (map (\<lambda>l. l @ [10]) (l # ls)) @ lastl)
        = splitlines_from [] (l @ (10 # (concat (map (\<lambda>l. l @ [10]) ls) @ lastl)))" by simp
  also have "\<dots> = splitlines_from l (10 # (concat (map (\<lambda>l. l @ [10]) ls) @ lastl))"
    using Cons.prems(1) splitlines_from_plain [of l "[]"] by simp
  also have "\<dots> = l # splitlines_from [] (concat (map (\<lambda>l. l @ [10]) ls) @ lastl)"
    by (rule splitlines_from_LF)
  finally show ?case using Cons by simp
qed

lemma choices_update_conv: "choices (self\<lparr>choices := t\<rparr>) = t" by simp

text \<open>
  Claim C6.  \<^verbatim>\<open>get_choices\<close> maps every non-empty line of the choices text, in order, to a
  pair: a line without a pipe gives the line twice; a line with a pipe is split at the first
  pipe and gives the part before it and the part after it, each with surrounding white space
  removed.  Empty lines give nothing: for a text of newline-terminated lines followed by a
  last line, the result has one pair per non-empty line.  The line \<^verbatim>\<open>a|Label A\<close> gives
  \<^verbatim>\<open>("a", "Label A")\<close> and the line \<^verbatim>\<open>solo\<close> gives \<^verbatim>\<open>("solo", "solo")\<close>.
\<close>

theorem get_choices_lines:
  "get_choices self =
     map (\<lambda>l. if 124 \<in> set l
              then (strip (takeWhile (\<lambda>c. c \<noteq> 124) l), strip (tl (dropWhile (\<lambda>c. c \<noteq> 124) l)))
              else (l, l))
         (filter (\<lambda>l. l \<noteq> []) (splitlines (choices self)))
   \<and> ((\<forall>l\<in>set ls. \<forall>c\<in>set l. \<not> is_linebreak c) \<and> (\<forall>c\<in>set lastl. \<not> is_linebreak c) \<longrightarrow>
        get_choices (self\<lparr>choices := concat (map (\<lambda>l. l @ [10]) ls) @ lastl\<rparr>) =
          map (\<lambda>l. if 124 \<in> set l
                   then (strip (takeWhile (\<lambda>c. c \<noteq> 124) l),
                         strip (tl (dropWhile (\<lambda>c. c \<noteq> 124) l)))
                   else (l, l))
              (filter (\<lambda>l. l \<noteq> []) (ls @ [lastl])))
   \<and> get_choices (self\<lparr>choices := ustr ''a|Label A''\<rparr>) = [(ustr ''a'', ustr ''Label A'')]
   \<and> get_choices (self\<lparr>choices := ustr ''solo''\<rparr>) = [(ustr ''solo'', ustr ''solo'')]"
proof (intro conjI impI)
  have choice_fun: "choice = (\<lambda>l. if 124 \<in> set l
              then (strip (takeWhile (\<lambda>c. c \<noteq> 124) l), strip (tl (dropWhile (\<lambda>c. c \<noteq> 124) l)))
              else (l, l))"
    by (rule ext) (rule choice_closed_form)
  show "get_choices self =
     map (\<lambda>l. if 124 \<in> set l
              then (strip (takeWhile (\<lambda>c. c \<noteq> 124) l), strip (tl (dropWhile (\<lambda>c. c \<noteq> 124) l)))
              else (l, l))
         (filter (\<lambda>l. l \<noteq> []) (splitlines (choices self)))"
    unfolding get_choices_def choice_fun ..
  show "get_choices (self\<lparr>choices := concat (map (\<lambda>l. l @ [10]) ls) @ lastl\<rparr>) =
          map (\<lambda>l. if 124 \<in> set l
                   then (strip (takeWhile (\<lambda>c. c \<noteq> 124) l),
                         strip (tl (dropWhile (\<lambda>c. c \<noteq> 124) l)))
                   else (l, l))
              (filter (\<lambda>l. l \<noteq> []) (ls @ [lastl]))"
    if h: "(\<forall>l\<in>set ls. \<forall>c\<in>set l. \<not> is_linebreak c) \<and> (\<forall>c\<in>set lastl. \<not> is_linebreak c)"
  proof -
    have "splitlines (concat (map (\<lambda>l. l @ [10]) ls) @ lastl)
            = ls @ (if lastl = [] then [] else [lastl])"
      unfolding splitlines_def using h by (intro splitlines_from_terminated) simp_all
    then show ?thesis
      unfolding get_choices_def choice_fun choices_update_conv by simp
  qed
  show "get_choices (self\<lparr>choices := ustr ''a|Label A''\<rparr>) = [(ustr ''a'', ustr ''Label A'')]"
    by (simp add: get_choices_def splitlines_def is_linebreak_def choice_def split_once_def
        strip_def is_space_def ustr_def)
  show "get_choices (self\<lparr>choices := ustr ''solo''\<rparr>) = [(ustr ''solo'', ustr ''solo'')]"
    by (simp add: get_choices_def splitlines_def is_linebreak_def choice_def split_once_def
        strip_def is_space_def ustr_def)
qed

theorem get_choices_lines_witness:
  "list_all (list_all (\<lambda>c. \<not> is_linebreak c)) [ustr ''a|Label A'', [], ustr '' b | c|d '']
   \<and> list_all (\<lambda>c. \<not> is_linebreak c) (ustr ''solo'')
   \<and> get_choices (example_field\<lparr>choices :=
        concat (map (\<lambda>l. l @ [10]) [ustr ''a|Label A'', [], ustr '' b | c|d '']) @ ustr ''solo''\<rparr>)
      = [(ustr ''a'', ustr ''Label A''), (ustr ''b'', ustr ''c|d''), (ustr ''solo'', ustr ''solo'')]"
proof -
  have h1: "\<forall>l\<in>set [ustr ''a|Label A'', [], ustr '' b | c|d '']. \<forall>c\<in>set l. \<not> is_linebreak c"
    by (simp add: ustr_def is_linebreak_def)
  have h2: "\<forall>c\<in>set (ustr ''solo''). \<not> is_linebreak c"
    by (simp add: ustr_def is_linebreak_def)
  from get_choices_lines [of example_field "[ustr ''a|Label A'', [], ustr '' b | c|d '']" "ustr ''solo''"] h1 h2
  have "get_choices (example_field\<lparr>choices :=
        concat (map (\<lambda>l. l @ [10]) [ustr ''a|Label A'', [], ustr '' b | c|d '']) @ ustr ''solo''\<rparr>)
      = map (\<lambda>l. if 124 \<in> set l
                   then (strip (takeWhile (\<lambda>c. c \<noteq> 124) l),
                         strip (tl (dropWhile (\<lambda>c. c \<noteq> 124) l)))
                   else (l, l))
              (filter (\<lambda>l. l \<noteq> []) ([ustr ''a|Label A'', [], ustr '' b | c|d ''] @ [ustr ''solo'']))"
    by blast
  also have "\<dots> = [(ustr ''a'', ustr ''Label A''), (ustr ''b'', ustr ''c|d''), (ustr ''solo'', ustr ''solo'')]"
    by (simp add: ustr_def strip_def is_space_def)
  finally show ?thesis using h1 h2 by (simp add: list_all_iff)
qed


subsection \<open>Default-value validation\<close>

lemma get_choices_values:
  "map fst (get_choices self) =
     map (\<lambda>l. if 124 \<in> set l then strip (takeWhile (\<lambda>c. c \<noteq> 124) l) else l)
         (filter (\<lambda>l. l \<noteq> []) (splitlines (choices self)))"
  by (simp add: get_choices_def choice_closed_form comp_def)

lemma Model_clean_fields_ok_iff:
  "Model_clean_fields other_errors exclude self = Inr () \<longleftrightarrow>
     list_all (\<lambda>(field, failures). field = ustr ''choices'' \<or> field = ustr ''default_value'')
       other_errors
     \<and> (excluded exclude (ustr ''choices'') \<or> choices self \<noteq> [])
     \<and> (excluded exclude (ustr ''default_value'') \<or> length (default_value self) \<le> 1000)"
proof -
  have "filter (\<lambda>(field, failures). field \<noteq> ustr ''choices'' \<and> field \<noteq> ustr ''default_value'')
            other_errors = [] \<longleftrightarrow>
        list_all (\<lambda>(field, failures). field = ustr ''choices'' \<or> field = ustr ''default_value'')
          other_errors"
    by (auto simp: filter_empty_conv list_all_iff)
  then show ?thesis
    by (auto simp: Model_clean_fields_def field_errors_def Let_def)
qed

lemma example_field_values:
  "map (\<lambda>l. if 124 \<in> set l then strip (takeWhile (\<lambda>c. c \<noteq> 124) l) else l)
       (filter (\<lambda>l. l \<noteq> []) (splitlines (ustr ''a|Label A'' @ [10] @ ustr ''solo'')))
     = [ustr ''a'', ustr ''solo'']"
  by (simp add: splitlines_def is_linebreak_def strip_def is_space_def ustr_def)

text \<open>
  Claim C7, as the code has it.  The values of the parsed choices are, for each non-empty line
  of the choices text, the part before the first pipe with surrounding white space removed,
  or the whole line when it has no pipe.  A failure of the inherited cleaning propagates, and
  the check is not reached.  When the inherited cleaning raises nothing, \<^verbatim>\<open>clean_fields\<close> raises
  a failure whose message quotes the default exactly when the choices text and the default are
  both non-empty and the default is not among the values; the failure is attached to the
  field \<^verbatim>\<open>default_value\<close> unless that field is excluded, and then it is attached to no field; in
  every other case \<^verbatim>\<open>clean_fields\<close> returns normally.  The inherited cleaning raises nothing
  exactly when no other field fails, the choices are excluded or non-empty, and the default is
  excluded or at most 1000 characters long.
\<close>

theorem clean_fields_default_value:
  "(let parsed = map (\<lambda>l. if 124 \<in> set l then strip (takeWhile (\<lambda>c. c \<noteq> 124) l) else l)
                     (filter (\<lambda>l. l \<noteq> []) (splitlines (choices self)));
        rejected = (choices self \<noteq> [] \<and> default_value self \<noteq> []
                    \<and> default_value self \<notin> set parsed);
        message = ustr ''The specified default value \"'' @ default_value self
                    @ ustr ''\" isn't part of the available choices.''
    in (\<forall>e. Model_clean_fields other_errors exclude self = Inl e \<longrightarrow>
             clean_fields other_errors exclude self = Inl e)
     \<and> (Model_clean_fields other_errors exclude self = Inr () \<and> rejected
          \<and> \<not> excluded exclude (ustr ''default_value'') \<longrightarrow>
          clean_fields other_errors exclude self
            = Inl (ValidationErrorDict [ustr ''default_value'' \<mapsto> [Message message]]))
     \<and> (Model_clean_fields other_errors exclude self = Inr () \<and> rejected
          \<and> excluded exclude (ustr ''default_value'') \<longrightarrow>
          clean_fields other_errors exclude self = Inl (ValidationError [Message message]))
     \<and> (Model_clean_fields other_errors exclude self = Inr () \<and> \<not> rejected \<longrightarrow>
          clean_fields other_errors exclude self = Inr ())
     \<and> (Model_clean_fields other_errors exclude self = Inr () \<longleftrightarrow>
          list_all (\<lambda>(field, failures). field = ustr ''choices''
                                          \<or> field = ustr ''default_value'') other_errors
          \<and> (excluded exclude (ustr ''choices'') \<or> choices self \<noteq> [])
          \<and> (excluded exclude (ustr ''default_value'')
               \<or> length (default_value self) \<le> 1000)))"
  unfolding Let_def get_choices_values [symmetric]
proof (intro conjI allI impI)
  show "Model_clean_fields other_errors exclude self = Inr () \<longleftrightarrow>
          list_all (\<lambda>(field, failures). field = ustr ''choices''
                                          \<or> field = ustr ''default_value'') other_errors
          \<and> (excluded exclude (ustr ''choices'') \<or> choices self \<noteq> [])
          \<and> (excluded exclude (ustr ''default_value'')
               \<or> length (default_value self) \<le> 1000)"
    by (rule Model_clean_fields_ok_iff)
qed (simp_all add: clean_fields_def validation_error_def default_value_message_def)

theorem clean_fields_default_value_witness:
  "clean_fields [] None (example_field\<lparr>default_value := ustr ''a''\<rparr>) = Inr ()
   \<and> clean_fields [] None (example_field\<lparr>default_value := ustr ''Label A''\<rparr>)
       = Inl (ValidationErrorDict
               [ustr ''default_value'' \<mapsto>
                  [Message (ustr ''The specified default value \"Label A\" isn't part of the available choices.'')]])
   \<and> clean_fields [] None (example_field\<lparr>default_value := []\<rparr>) = Inr ()
   \<and> clean_fields [] (Some [ustr ''choices'', ustr ''placeholder''])
         (example_field\<lparr>choices := []\<rparr>) = Inr ()
   \<and> Model_clean_fields [] None (example_field\<lparr>choices := []\<rparr>)
       = Inl (ValidationErrorDict [ustr ''choices'' \<mapsto> [Blank]])
   \<and> clean_fields [] None (example_field\<lparr>choices := []\<rparr>)
       = Inl (ValidationErrorDict [ustr ''choices'' \<mapsto> [Blank]])"
proof -
  have pv: "map (\<lambda>l. if 124 \<in> set l then strip (takeWhile (\<lambda>c. c \<noteq> 124) l) else l)
       (filter (\<lambda>l. l \<noteq> []) (splitlines (choices (example_field\<lparr>default_value := d\<rparr>))))
     = [ustr ''a'', ustr ''solo'']" for d
    using example_field_values by (simp add: example_field_def)
  have ch: "choices (example_field\<lparr>default_value := d\<rparr>) \<noteq> []" for d
    by (simp add: example_field_def ustr_def)
  have m: "Model_clean_fields [] None (example_field\<lparr>default_value := d\<rparr>) = Inr ()"
    if "length d \<le> 1000" for d
    unfolding Model_clean_fields_ok_iff using that ch by simp
  have x: "\<not> excluded None (ustr ''default_value'')" by (simp add: excluded_def)
  have l: "ustr ''a'' \<in> set [ustr ''a'', ustr ''solo'']"
    "ustr ''Label A'' \<notin> set [ustr ''a'', ustr ''solo'']" "ustr ''Label A'' \<noteq> []"
    by (simp_all add: ustr_def)
  have c1: "clean_fields [] None (example_field\<lparr>default_value := ustr ''a''\<rparr>) = Inr ()"
    using clean_fields_default_value [of "example_field\<lparr>default_value := ustr ''a''\<rparr>"
        "[]" None, unfolded Let_def pv] m [of "ustr ''a''"] l(1)
    by (simp add: ustr_def)
  have "clean_fields [] None (example_field\<lparr>default_value := ustr ''Label A''\<rparr>)
       = Inl (ValidationErrorDict
               [ustr ''default_value'' \<mapsto>
                  [Message (ustr ''The specified default value \"''
                     @ default_value (example_field\<lparr>default_value := ustr ''Label A''\<rparr>)
                     @ ustr ''\" isn't part of the available choices.'')]])"
    using clean_fields_default_value [of "example_field\<lparr>default_value := ustr ''Label A''\<rparr>"
        "[]" None, unfolded Let_def pv] m [of "ustr ''Label A''"] l(2,3) x
      ch [of "ustr ''Label A''"]
    by (simp add: ustr_def)
  then have c2: "clean_fields [] None (example_field\<lparr>default_value := ustr ''Label A''\<rparr>)
       = Inl (ValidationErrorDict
               [ustr ''default_value'' \<mapsto>
                  [Message (ustr ''The specified default value \"Label A\" isn't part of the available choices.'')]])"
    by (simp add: ustr_def)
  have c3: "clean_fields [] None (example_field\<lparr>default_value := []\<rparr>) = Inr ()"
    using clean_fields_default_value [of "example_field\<lparr>default_value := []\<rparr>"
        "[]" None, unfolded Let_def pv] m [of "[]"]
    by simp
  have m4: "Model_clean_fields [] (Some [ustr ''choices'', ustr ''placeholder''])
         (example_field\<lparr>choices := []\<rparr>) = Inr ()"
    unfolding Model_clean_fields_ok_iff by (simp add: excluded_def example_field_def ustr_def)
  have c4: "clean_fields [] (Some [ustr ''choices'', ustr ''placeholder''])
         (example_field\<lparr>choices := []\<rparr>) = Inr ()"
    using clean_fields_default_value [of "example_field\<lparr>choices := []\<rparr>"
        "[]" "Some [ustr ''choices'', ustr ''placeholder'']", unfolded Let_def] m4
    by simp
  have c5: "Model_clean_fields [] None (example_field\<lparr>choices := []\<rparr>)
              = Inl (ValidationErrorDict [ustr ''choices'' \<mapsto> [Blank]])"
    by (simp add: Model_clean_fields_def field_errors_def excluded_def example_field_def
        ustr_def)
  have c6: "clean_fields [] None (example_field\<lparr>choices := []\<rparr>)
              = Inl (ValidationErrorDict [ustr ''choices'' \<mapsto> [Blank]])"
    using clean_fields_default_value [of "example_field\<lparr>choices := []\<rparr>"
        "[]" None, unfolded Let_def] c5
    by blast
  show ?thesis using c1 c2 c3 c4 c5 c6 by blast
qed

text \<open>
  Claim C7 as stated has the failure attached to the field \<^verbatim>\<open>default_value\<close> whenever the
  default is not among the choices.  With \<^verbatim>\<open>default_value\<close> among the excluded fields the
  failure is raised and is attached to no field.
\<close>

theorem clean_fields_excluded_default_not_field_scoped:
  "choices example_field \<noteq> []
   \<and> ustr ''Label A'' \<noteq> []
   \<and> ustr ''Label A'' \<notin> fst ` set (get_choices example_field)
   \<and> clean_fields [] (Some [ustr ''default_value''])
         (example_field\<lparr>default_value := ustr ''Label A''\<rparr>)
       = Inl (ValidationError
               [Message (ustr ''The specified default value \"Label A\" isn't part of the available choices.'')])
   \<and> clean_fields [] (Some [ustr ''default_value''])
         (example_field\<lparr>default_value := ustr ''Label A''\<rparr>)
       \<noteq> Inl (ValidationErrorDict
               [ustr ''default_value'' \<mapsto>
                  [Message (ustr ''The specified default value \"Label A\" isn't part of the available choices.'')]])"
proof -
  have g: "get_choices example_field = [(ustr ''a'', ustr ''Label A''), (ustr ''solo'', ustr ''solo'')]"
    "get_choices (example_field\<lparr>default_value := ustr ''Label A''\<rparr>)
       = [(ustr ''a'', ustr ''Label A''), (ustr ''solo'', ustr ''solo'')]"
    by (simp_all add: example_field_def get_choices_def splitlines_def is_linebreak_def choice_def
        split_once_def strip_def is_space_def ustr_def)
  have ch: "choices example_field \<noteq> []" by (simp add: example_field_def ustr_def)
  have m: "Model_clean_fields [] (Some [ustr ''default_value''])
             (example_field\<lparr>default_value := ustr ''Label A''\<rparr>) = Inr ()"
    unfolding Model_clean_fields_ok_iff using ch by (simp add: excluded_def)
  have r: "clean_fields [] (Some [ustr ''default_value''])
         (example_field\<lparr>default_value := ustr ''Label A''\<rparr>)
       = Inl (ValidationError
               [Message (ustr ''The specified default value \"Label A\" isn't part of the available choices.'')])"
    using ch by (simp add: clean_fields_def m g validation_error_def excluded_def
        default_value_message_def) (simp add: ustr_def)
  have n: "ustr ''Label A'' \<notin> fst ` set (get_choices example_field)"
    unfolding g by (simp add: ustr_def)
  have e: "ustr ''Label A'' \<noteq> ([] :: pystr)" by (simp add: ustr_def)
  show ?thesis using ch n e r by simp
qed

subsection \<open>Name normalisation\<close>

text \<open>
  What \<^verbatim>\<open>to_python\<close> does: the empty value becomes \<^verbatim>\<open>field_\<close> followed by ten characters
  drawn from \<open>RANDOM_STRING_CHARS\<close>, and any other string is returned as it is.
\<close>

lemma get_random_string_length: "length (get_random_string rnd n cs) = n"
  by (simp add: get_random_string_def)

lemma get_random_string_chars:
  assumes "cs \<noteq> []"
  shows "set (get_random_string rnd n cs) \<subseteq> set cs"
proof -
  have "cs ! (rnd i mod length cs) \<in> set cs" for i
    using assms by simp
  then show ?thesis by (auto simp: get_random_string_def)
qed

lemma RANDOM_STRING_CHARS_alnum:
  "c \<in> set RANDOM_STRING_CHARS \<Longrightarrow> (97 \<le> c \<and> c \<le> 122) \<or> (48 \<le> c \<and> c \<le> 57)"
  by (auto simp: RANDOM_STRING_CHARS_def ustr_def)

lemma NameField_to_python_empty:
  assumes "value = None \<or> value = Some []"
  shows "\<exists>suffix. NameField_to_python rnd value = ustr ''field_'' @ suffix
           \<and> length suffix = 10
           \<and> list_all (\<lambda>c. (97 \<le> c \<and> c \<le> 122) \<or> (48 \<le> c \<and> c \<le> 57)) suffix"
proof -
  let ?suffix = "get_random_string rnd 10 RANDOM_STRING_CHARS"
  have ne: "RANDOM_STRING_CHARS \<noteq> []" by (simp add: RANDOM_STRING_CHARS_def ustr_def)
  have "NameField_to_python rnd value = ustr ''field_'' @ ?suffix"
    using assms by (auto simp: NameField_to_python_def)
  moreover have "length ?suffix = 10" by (rule get_random_string_length)
  moreover have "list_all (\<lambda>c. (97 \<le> c \<and> c \<le> 122) \<or> (48 \<le> c \<and> c \<le> 57)) ?suffix"
    unfolding list_all_iff
    using get_random_string_chars [OF ne, of rnd 10] RANDOM_STRING_CHARS_alnum by blast
  ultimately show ?thesis by blast
qed

lemma NameField_to_python_nonempty: "s \<noteq> [] \<Longrightarrow> NameField_to_python rnd (Some s) = s"
  by (simp add: NameField_to_python_def)

lemma name_regex_search_iff:
  "name_regex_search s \<longleftrightarrow>
     (\<exists>body. body \<noteq> [] \<and> list_all name_char body \<and> (s = body \<or> s = body @ [10]))"
proof
  assume h: "name_regex_search s"
  let ?b = "takeWhile name_char s"
  have "s = ?b @ dropWhile name_char s" by simp
  moreover have "list_all name_char ?b" by (simp add: list_all_iff) (meson set_takeWhileD)
  ultimately show "\<exists>body. body \<noteq> [] \<and> list_all name_char body \<and> (s = body \<or> s = body @ [10])"
    using h unfolding name_regex_search_def by (metis append_Nil2)
next
  assume "\<exists>body. body \<noteq> [] \<and> list_all name_char body \<and> (s = body \<or> s = body @ [10])"
  then obtain body where b: "body \<noteq> []" "list_all name_char body" "s = body \<or> s = body @ [10]"
    by blast
  have n: "\<not> name_char 10" by (simp add: name_char_def)
  from b(2) have all: "\<forall>c\<in>set body. name_char c" by (simp add: list_all_iff)
  from b(3) show "name_regex_search s"
  proof
    assume s: "s = body"
    have tw: "takeWhile name_char body = body" using all by (simp add: takeWhile_eq_all_conv)
    have dw: "dropWhile name_char body = []" using all by simp
    show ?thesis unfolding name_regex_search_def s tw dw using b(1) by simp
  next
    assume s: "s = body @ [10]"
    have tw: "takeWhile name_char (body @ [10]) = body" using all n
      by (simp add: takeWhile_append2)
    have dw: "dropWhile name_char (body @ [10]) = [10]" using all n
      by (simp add: dropWhile_append2)
    show ?thesis unfolding name_regex_search_def s tw dw using b(1) by simp
  qed
qed

lemma NameField_clean_rejects:
  assumes "s \<noteq> []" and "\<not> list_all name_char s"
    and "\<not> (\<exists>body. list_all name_char body \<and> s = body @ [10])"
  shows "\<exists>errors. NameField_clean rnd (Some s) = Inl (ValidationError (Invalid name_message # errors))"
proof -
  have "\<not> name_regex_search s"
    using assms unfolding name_regex_search_iff by blast
  then show ?thesis
    using assms(1) by (simp add: NameField_clean_def NameField_to_python_def NameField_run_validators_def)
qed

text \<open>Cleaning the empty value gives the generated token: it passes both validators.\<close>

lemma NameField_clean_empty:
  assumes "value = None \<or> value = Some []"
  shows "NameField_clean rnd value
           = Inr (ustr ''field_'' @ get_random_string rnd 10 RANDOM_STRING_CHARS)"
proof -
  let ?suffix = "get_random_string rnd 10 RANDOM_STRING_CHARS"
  let ?token = "ustr ''field_'' @ ?suffix"
  have ne: "RANDOM_STRING_CHARS \<noteq> []" by (simp add: RANDOM_STRING_CHARS_def ustr_def)
  have tp: "NameField_to_python rnd value = ?token"
    using assms by (auto simp: NameField_to_python_def)
  have "\<forall>c\<in>set ?suffix. name_char c"
    using get_random_string_chars [OF ne, of rnd 10] RANDOM_STRING_CHARS_alnum
    unfolding name_char_def by blast
  moreover have "\<forall>c\<in>set (ustr ''field_''). name_char c"
    by (simp add: ustr_def name_char_def)
  ultimately have "list_all name_char ?token" by (auto simp: list_all_iff)
  moreover have "?token \<noteq> []" by (simp add: ustr_def)
  ultimately have "name_regex_search ?token" unfolding name_regex_search_iff by blast
  moreover have "length ?token = 16" by (simp add: get_random_string_length ustr_def)
  ultimately have rv: "NameField_run_validators ?token = []"
    by (simp add: NameField_run_validators_def)
  have "ustr ''field_'' \<noteq> []" by (simp add: ustr_def)
  with rv show ?thesis by (simp add: NameField_clean_def tp Let_def)
qed

text \<open>
  Claim C4.  The claim has every string outside the allowed character set rejected by the
  validator.  The pattern ends with \<^verbatim>\<open>$\<close>, which also matches before a final newline, so the
  name \<^verbatim>\<open>abc\<close> followed by a newline is outside the character set and passes both validators:
  cleaning returns it unchanged.  (\<open>NameField_clean_rejects\<close> shows that every other non-empty
  string outside the character set is rejected.)
\<close>

theorem NameField_clean_trailing_newline:
  "\<not> list_all name_char (ustr ''abc'' @ [10])
   \<and> NameField_run_validators (ustr ''abc'' @ [10]) = []
   \<and> NameField_clean rnd (Some (ustr ''abc'' @ [10])) = Inr (ustr ''abc'' @ [10])"
  by (simp add: NameField_clean_def NameField_to_python_def NameField_run_validators_def
      name_regex_search_def name_char_def ustr_def)

subsection \<open>The union query\<close>

subsubsection \<open>Aliases are distinct\<close>

lemma str_nat_value: "foldl (\<lambda>a d. 10 * a + (d - 48)) 0 (str_nat n) = n"
proof (induction n rule: str_nat.induct)
  case (1 n)
  show ?case
  proof (cases "n < 10")
    case True
    then show ?thesis by (simp add: str_nat.simps [of n])
  next
    case False
    with 1 show ?thesis by (simp add: str_nat.simps [of n])
  qed
qed

lemma str_nat_inj: "str_nat a = str_nat b \<Longrightarrow> a = b"
  by (metis str_nat_value)

lemma alias_of_inj: "alias_of i = alias_of j \<Longrightarrow> i = j"
  by (simp add: alias_of_def str_nat_inj)

lemma alias_of_not_name: "alias_of i \<noteq> ustr ''name''"
  by (simp add: alias_of_def ustr_def)

lemma make_columns_Some:
  "make_columns (Some as) = zip (map alias_of [0..<length as]) as"
  by (simp add: make_columns_def enumerate_eq_zip zip_map1)

lemma make_columns_None: "make_columns None = []"
  by (simp add: make_columns_def)

lemma make_columns_length: "length (make_columns (Some as)) = length as"
  by (simp add: make_columns_Some)

lemma make_columns_snd: "map snd (make_columns (Some as)) = as"
  by (simp add: make_columns_Some)

lemma make_columns_fst: "map fst (make_columns (Some as)) = map alias_of [0..<length as]"
  by (simp add: make_columns_Some)

lemma make_columns_distinct: "distinct (map fst (make_columns (Some as)))"
  unfolding make_columns_fst by (simp add: distinct_map inj_on_def alias_of_inj)

lemma make_columns_not_name: "ustr ''name'' \<notin> fst ` set (make_columns (Some as))"
proof -
  have "fst ` set (make_columns (Some as)) = set (map fst (make_columns (Some as)))" by simp
  also have "\<dots> = alias_of ` {0..<length as}" unfolding make_columns_fst by simp
  finally show ?thesis using alias_of_not_name by (metis imageE)
qed

subsubsection \<open>The annotations of one plugin type\<close>

lemma fold_annotations_other:
  "al \<notin> fst ` set cols \<Longrightarrow>
   fold (\<lambda>(alias, attribute) m. m(alias \<mapsto> g attribute)) cols m0 al = m0 al"
  by (induction cols arbitrary: m0) (auto split: prod.splits)

lemma fold_annotations_member:
  "distinct (map fst cols) \<Longrightarrow> (al, at) \<in> set cols \<Longrightarrow>
   fold (\<lambda>(alias, attribute) m. m(alias \<mapsto> g attribute)) cols m0 al = Some (g at)"
proof (induction cols arbitrary: m0)
  case Nil
  then show ?case by simp
next
  case (Cons c cols)
  obtain al' at' where c: "c = (al', at')" by (cases c)
  let ?F = "\<lambda>(alias, attribute) m. m(alias \<mapsto> g attribute)"
  show ?case
  proof (cases "(al, at) \<in> set cols")
    case True
    have "fold ?F (c # cols) m0 al = fold ?F cols (?F c m0) al" by simp
    also have "\<dots> = Some (g at)"
      using Cons.prems(1) True by (intro Cons.IH) simp_all
    finally show ?thesis .
  next
    case False
    with Cons.prems have e: "al' = al" "at' = at" by (auto simp: c)
    from Cons.prems(1) have notin: "al \<notin> fst ` set cols" by (simp add: c e)
    have "fold (\<lambda>(alias, attribute) m. m(alias \<mapsto> g attribute)) (c # cols) m0 al
            = fold (\<lambda>(alias, attribute) m. m(alias \<mapsto> g attribute)) cols (m0(al \<mapsto> g at)) al"
      by (simp add: c e)
    also have "\<dots> = (m0(al \<mapsto> g at)) al"
      using notin by (rule fold_annotations_other)
    also have "\<dots> = Some (g at)" by simp
    finally show ?thesis .
  qed
qed

lemma annotations_member:
  "distinct (map fst cols) \<Longrightarrow> (al, at) \<in> set cols \<Longrightarrow>
   annotations p cols al = Some (annotation p at)"
  unfolding annotations_def by (rule fold_annotations_member)

lemma annotations_other: "al \<notin> fst ` set cols \<Longrightarrow> annotations p cols al = None"
  unfolding annotations_def by (simp add: fold_annotations_other)

subsubsection \<open>The combined query\<close>

lemma projection_queryset:
  "values_list (annotate (objects_filter_parent p self) anns) vals
     = \<lparr>from_model = p, parent_filter = Some (pk self), annotated = anns, projected = vals\<rparr>"
  by (simp add: values_list_def annotate_def objects_filter_parent_def)

lemma plugin_querysets_map:
  "plugin_querysets self cols vals plugins
     = map (\<lambda>p. Select \<lparr>from_model = p, parent_filter = Some (pk self),
                         annotated = annotations p cols, projected = vals\<rparr>)
           (filter subclass_of_FormFieldBase plugins)"
  by (induction plugins) (simp_all add: projection_queryset)

lemma components_foldl:
  "components (foldl union_all q qs) = components q @ concat (map components qs)"
  by (induction qs arbitrary: q) (simp_all add: union_all_def)

lemma first_component_foldl: "first_component (foldl union_all q qs) = first_component q"
  by (induction qs arbitrary: q) (simp_all add: union_all_def)

lemma union_query_error_iff:
  "union_query self plugins attributes = Inl e
     \<longleftrightarrow> e = IndexError \<and> filter subclass_of_FormFieldBase plugins = []"
  by (auto simp: union_query_def Let_def plugin_querysets_map split: list.splits)

lemma union_query_components:
  assumes "union_query self plugins attributes = Inr q"
  shows "components q
           = map (\<lambda>p. \<lparr>from_model = p, parent_filter = Some (pk self),
                        annotated = annotations p (make_columns attributes),
                        projected = make_values (make_columns attributes)\<rparr>)
                 (filter subclass_of_FormFieldBase plugins)"
    and "projected (first_component q) = make_values (make_columns attributes)"
proof -
  let ?sel = "\<lambda>p. \<lparr>from_model = p, parent_filter = Some (pk self),
                        annotated = annotations p (make_columns attributes),
                        projected = make_values (make_columns attributes)\<rparr>"
  from assms obtain f fs where
    fs: "filter subclass_of_FormFieldBase plugins = f # fs"
    and q: "q = foldl union_all (Select (?sel f)) (map (\<lambda>p. Select (?sel p)) fs)"
    by (auto simp: union_query_def Let_def plugin_querysets_map split: list.splits)
  show "components q = map ?sel (filter subclass_of_FormFieldBase plugins)"
    unfolding q fs components_foldl by (simp add: comp_def)
  show "projected (first_component q) = make_values (make_columns attributes)"
    unfolding q first_component_foldl by simp
qed

lemma union_query_filter:
  "union_query self (filter subclass_of_FormFieldBase plugins) attributes
     = union_query self plugins attributes"
  by (simp add: union_query_def plugin_querysets_map)

subsubsection \<open>From tuples to pairs\<close>

lemma fold_dict_other:
  "a \<notin> snd ` fst ` set xs \<Longrightarrow>
   fold (\<lambda>(column, value) d. d(snd column \<mapsto> value)) xs d0 a = d0 a"
  by (induction xs arbitrary: d0) (auto split: prod.splits)

lemma fold_dict_member:
  "a \<in> snd ` fst ` set xs \<Longrightarrow>
   \<exists>c v. (c, v) \<in> set xs \<and> snd c = a
         \<and> fold (\<lambda>(column, value) d. d(snd column \<mapsto> value)) xs d0 a = Some v"
proof (induction xs arbitrary: d0)
  case Nil
  then show ?case by simp
next
  case (Cons x xs)
  obtain c v where x: "x = (c, v)" by (cases x)
  let ?U = "\<lambda>(column, value) d. d(snd column \<mapsto> value)"
  have step: "fold ?U (x # xs) d0 a = fold ?U xs (d0(snd c \<mapsto> v)) a"
    by (simp add: x)
  show ?case
  proof (cases "a \<in> snd ` fst ` set xs")
    case True
    from Cons.IH [OF True, of "d0(snd c \<mapsto> v)"] obtain c' v' where
      "(c', v') \<in> set xs" "snd c' = a" "fold ?U xs (d0(snd c \<mapsto> v)) a = Some v'"
      by blast
    then show ?thesis unfolding step by (intro exI [of _ c'] exI [of _ v']) simp
  next
    case False
    with Cons.prems have a: "snd c = a" by (auto simp: x)
    have "fold ?U xs (d0(snd c \<mapsto> v)) a = (d0(snd c \<mapsto> v)) a"
      using False by (rule fold_dict_other)
    also have "\<dots> = Some v" by (simp add: a)
    finally show ?thesis unfolding step using a by (intro exI [of _ c] exI [of _ v]) (simp add: x)
  qed
qed

lemma row_dict_dom:
  "length vals = length cols \<Longrightarrow> dom (row_dict cols vals) = snd ` set cols"
proof -
  assume l: "length vals = length cols"
  have f: "fst ` set (zip cols vals) = set cols"
    using l by (metis map_fst_zip set_map)
  have "row_dict cols vals a \<noteq> None \<longleftrightarrow> a \<in> snd ` set cols" for a
  proof (cases "a \<in> snd ` fst ` set (zip cols vals)")
    case True
    from fold_dict_member [OF True, of Map.empty] show ?thesis
      using True by (auto simp: row_dict_def f)
  next
    case False
    from fold_dict_other [OF False, of Map.empty] show ?thesis
      using False by (simp add: row_dict_def f)
  qed
  then show ?thesis by (auto simp: dom_def)
qed

lemma row_dict_value:
  assumes "a \<in> set as"
  shows "\<exists>i<length as. as ! i = a
           \<and> row_dict (make_columns (Some as)) (map row (map fst (make_columns (Some as)))) a
               = Some (row (alias_of i))"
proof -
  let ?cols = "make_columns (Some as)"
  let ?xs = "zip ?cols (map row (map fst ?cols))"
  have "fst ` set ?xs = set ?cols" by (metis length_map map_fst_zip set_map)
  moreover have "snd ` set ?cols = set as" using make_columns_snd [of as] by (metis set_map)
  ultimately have "a \<in> snd ` fst ` set ?xs" using assms by simp
  from fold_dict_member [OF this, of Map.empty] obtain c v where
    m: "(c, v) \<in> set ?xs" and c: "snd c = a" and r: "row_dict ?cols (map row (map fst ?cols)) a = Some v"
    by (auto simp: row_dict_def)
  from m obtain i where i: "i < length ?cols" and ci: "?cols ! i = c"
    and vi: "map row (map fst ?cols) ! i = v"
    by (auto simp: set_zip)
  have li: "i < length as" using i by (simp add: make_columns_length)
  have "?cols ! i = (alias_of i, as ! i)" using li by (simp add: make_columns_Some)
  with ci c vi i have "as ! i = a" "v = row (alias_of i)" by auto
  with li r show ?thesis by blast
qed

lemma get_formfields_union_rows:
  assumes "union_query self plugins (Some as) = Inr q"
  shows "get_formfields_union db self plugins (Some as)
           = Inr (map (\<lambda>row. (row (ustr ''name''),
                               row_dict (make_columns (Some as))
                                 (map row (map fst (make_columns (Some as))))))
                      (db q))"
  using assms union_query_components(2) [OF assms]
  by (simp add: get_formfields_union_def fetch_def make_values_def comp_def)

lemma make_columns_None_Some: "make_columns None = make_columns (Some [])"
  by (simp add: make_columns_def)

lemma get_formfields_union_None:
  "get_formfields_union db self plugins None = get_formfields_union db self plugins (Some [])"
  unfolding get_formfields_union_def union_query_def make_columns_None_Some ..

lemma get_formfields_union_error_iff:
  "get_formfields_union db self plugins attributes = Inl e
     \<longleftrightarrow> e = IndexError \<and> filter subclass_of_FormFieldBase plugins = []"
  using union_query_error_iff [of self plugins attributes]
  by (cases "union_query self plugins attributes") (auto simp: get_formfields_union_def)

lemma annotation_resolved:
  "annotation p a =
     (if a \<in> set (meta_fields p) then F a
      else (case class_attributes p a of
              Some v \<Rightarrow>
                if v \<noteq> PyNone then Value v TextField
                else if a \<in> {ustr ''is_collapsible'', ustr ''is_collapse_below'',
                               ustr ''is_collapsed_by_default''}
                     then Value (PyBool False) BooleanField else Value (PyStr []) TextField
            | None \<Rightarrow>
                if a \<in> {ustr ''is_collapsible'', ustr ''is_collapse_below'',
                          ustr ''is_collapsed_by_default''}
                then Value (PyBool False) BooleanField else Value (PyStr []) TextField))"
proof -
  have d: "FIELD_DEFAULTS a =
             (if a \<in> {ustr ''is_collapsible'', ustr ''is_collapse_below'',
                        ustr ''is_collapsed_by_default''}
              then Some (PyBool False, BooleanField) else None)"
    unfolding FIELD_DEFAULTS_def by simp
  show ?thesis
    unfolding annotation_def getattr_or_None_def Let_def d
    by (cases "class_attributes p a") simp_all
qed

lemma annotations_at_alias:
  "i < length as \<Longrightarrow> annotations p (make_columns (Some as)) (alias_of i) = Some (annotation p (as ! i))"
  by (rule annotations_member [OF make_columns_distinct])
     (simp add: make_columns_Some set_zip, metis length_map length_upt minus_nat.diff_0 nth_map nth_upt plus_nat.add_0)

lemma annotations_at_name: "annotations p (make_columns (Some as)) (ustr ''name'') = None"
  by (rule annotations_other [OF make_columns_not_name])

lemma make_values_Some:
  "make_values (make_columns (Some as)) = ustr ''name'' # map alias_of [0..<length as]"
  by (simp add: make_values_def make_columns_fst)

lemma union_query_exists:
  assumes "filter subclass_of_FormFieldBase plugins \<noteq> []"
  shows "\<exists>q. union_query self plugins attributes = Inr q"
proof (cases "union_query self plugins attributes")
  case (Inl e)
  then have "filter subclass_of_FormFieldBase plugins = []"
    unfolding union_query_error_iff by blast
  with assms show ?thesis by simp
next
  case (Inr q)
  then show ?thesis by blast
qed

subsubsection \<open>The example tables and their answers\<close>

lemma example_filters:
  "filter subclass_of_FormFieldBase [plaintext_model, simplefield_model, rating_model]
     = [simplefield_model, rating_model]"
  "filter subclass_of_FormFieldBase [simplefield_model, plaintext_model, rating_model]
     = [simplefield_model, rating_model]"
  "filter subclass_of_FormFieldBase [plaintext_model, simplefield_model, duration_model]
     = [simplefield_model]"
  "filter subclass_of_FormFieldBase [plaintext_model, duration_model] = []"
  "filter subclass_of_FormFieldBase [plaintext_model, simplefield_model] = [simplefield_model]"
  "filter subclass_of_FormFieldBase [simplefield_model, rating_model]
     = [simplefield_model, rating_model]"
  by (simp_all add: plaintext_model_def simplefield_model_def rating_model_def duration_model_def)

lemma example_attributes:
  "ustr ''type'' \<in> set (meta_fields simplefield_model)"
  "ustr ''is_collapsible'' \<notin> set (meta_fields simplefield_model)"
  "ustr ''colour'' \<notin> set (meta_fields simplefield_model)"
  "class_attributes simplefield_model a = None"
  "ustr ''type'' \<notin> set (meta_fields rating_model)"
  "ustr ''is_collapsible'' \<notin> set (meta_fields rating_model)"
  "ustr ''colour'' \<notin> set (meta_fields rating_model)"
  "class_attributes rating_model (ustr ''type'') = Some (PyStr (ustr ''rating''))"
  "class_attributes rating_model (ustr ''is_collapsible'') = Some PyNone"
  "class_attributes rating_model (ustr ''colour'') = None"
  by (simp_all add: simplefield_model_def rating_model_def ustr_def)

lemma example_names:
  "ustr ''is_collapsible'' \<in> {ustr ''is_collapsible'', ustr ''is_collapse_below'',
                               ustr ''is_collapsed_by_default''}"
  "ustr ''colour'' \<notin> {ustr ''is_collapsible'', ustr ''is_collapse_below'',
                        ustr ''is_collapsed_by_default''}"
  "ustr ''type'' \<noteq> ustr ''is_collapsible''" "ustr ''type'' \<noteq> ustr ''colour''"
  "ustr ''is_collapsible'' \<noteq> ustr ''colour''"
  by (simp_all add: ustr_def)

lemma example_answer_rows:
  "length (example_answer q) = 3"
  "map (\<lambda>row. row (ustr ''name'')) (example_answer q)
     = [PyStr (ustr ''first''), PyStr (ustr ''third''), PyStr (ustr ''second'')]"
  "(example_answer q ! 0) (ustr ''name'') = PyStr (ustr ''first'')"
  "(example_answer q ! 0) (alias_of 0) = PyStr (ustr ''text'')"
  "(example_answer q ! 2) (alias_of 0) = PyStr (ustr ''rating'')"
  using alias_of_not_name [of 0]
  by (simp_all add: example_answer_def)

lemma table_by_table_names:
  assumes "filter subclass_of_FormFieldBase plugins \<noteq> []"
  shows "get_formfields_union table_by_table self plugins None
           = Inr (map (\<lambda>row. (column_values row (ustr ''name''), Map.empty))
                      (concat (map (\<lambda>p. filter (\<lambda>row. parent row = pk self) (objects p))
                                   (filter subclass_of_FormFieldBase plugins))))"
proof -
  from assms obtain q where q: "union_query self plugins (Some []) = Inr q"
    using union_query_exists by blast
  have e: "row_dict (make_columns (Some [])) (map row (map fst (make_columns (Some []))))
             = Map.empty" for row :: "pystr \<Rightarrow> pyval"
    by (simp add: make_columns_def row_dict_def)
  have t: "table_by_table q
             = concat (map (\<lambda>p. map column_values
                                    (filter (\<lambda>row. parent row = pk self) (objects p)))
                           (filter subclass_of_FormFieldBase plugins))"
    unfolding table_by_table_def union_query_components(1) [OF q]
    by (simp add: selected_rows_def comp_def)
  have "get_formfields_union table_by_table self plugins None
          = Inr (map (\<lambda>row. (row (ustr ''name''), Map.empty)) (table_by_table q))"
    unfolding get_formfields_union_None get_formfields_union_rows [OF q] e ..
  also have "\<dots> = Inr (map (\<lambda>row. (column_values row (ustr ''name''), Map.empty))
                      (concat (map (\<lambda>p. filter (\<lambda>row. parent row = pk self) (objects p))
                                   (filter subclass_of_FormFieldBase plugins))))"
    unfolding t by (simp add: map_concat comp_def)
  finally show ?thesis .
qed

lemma example_rows:
  "filter (\<lambda>row. parent row = pk example_form) (objects simplefield_model)
     = [objects simplefield_model ! 0, objects simplefield_model ! 2]"
  "filter (\<lambda>row. parent row = pk example_form) (objects rating_model) = objects rating_model"
  "column_values (objects simplefield_model ! 0) (ustr ''name'') = PyStr (ustr ''first'')"
  "column_values (objects simplefield_model ! 2) (ustr ''name'') = PyStr (ustr ''third'')"
  "map (\<lambda>row. (column_values row (ustr ''name''), m)) (objects rating_model)
     = [(PyStr (ustr ''second''), m)]"
  by (simp_all add: simplefield_model_def rating_model_def example_form_def)

subsubsection \<open>Resolution of a requested attribute\<close>

text \<open>
  Claim C1.  In the combined query every component selects from one of the
  \<^verbatim>\<open>FormFieldBase\<close> subclasses among \<^verbatim>\<open>plugins\<close>, in their order, and projects \<^verbatim>\<open>name\<close> and
  then one alias per requested attribute.  Under the alias of an attribute the component is
  annotated with the column \<^verbatim>\<open>F(attribute)\<close> when the plugin model has a field of that name;
  otherwise with the literal \<^verbatim>\<open>Value(v, output_field=TextField())\<close> when the plugin class has
  an attribute of that name with a value \<open>v\<close> other than \<^verbatim>\<open>None\<close>; otherwise with the default:
  \<^verbatim>\<open>Value(False, output_field=BooleanField())\<close> for \<^verbatim>\<open>is_collapsible\<close>, \<^verbatim>\<open>is_collapse_below\<close> and
  \<^verbatim>\<open>is_collapsed_by_default\<close>, and \<^verbatim>\<open>Value("", output_field=TextField())\<close> for any other
  attribute.  Whatever rows the storage answers the query with, the output has one pair per
  row, in that order: the \<^verbatim>\<open>name\<close> of the row, and for every requested attribute the value the
  row has under the alias of a position where the attribute was requested.  What value the
  storage gives an expression is the storage's matter and no part of the statement.
\<close>

theorem formfields_union_resolution:
  assumes "union_query self plugins (Some as) = Inr q"
  shows
    "map from_model (components q) = filter subclass_of_FormFieldBase plugins
     \<and> (\<forall>c\<in>set (components q).
          projected c = ustr ''name'' # map alias_of [0..<length as]
          \<and> annotated c (ustr ''name'') = None
          \<and> (\<forall>i<length as.
                annotated c (alias_of i) =
                  Some (if as ! i \<in> set (meta_fields (from_model c)) then F (as ! i)
                        else (case class_attributes (from_model c) (as ! i) of
                                Some v \<Rightarrow>
                                  if v \<noteq> PyNone then Value v TextField
                                  else if as ! i \<in> {ustr ''is_collapsible'',
                                                     ustr ''is_collapse_below'',
                                                     ustr ''is_collapsed_by_default''}
                                       then Value (PyBool False) BooleanField
                                       else Value (PyStr []) TextField
                              | None \<Rightarrow>
                                  if as ! i \<in> {ustr ''is_collapsible'',
                                                ustr ''is_collapse_below'',
                                                ustr ''is_collapsed_by_default''}
                                  then Value (PyBool False) BooleanField
                                  else Value (PyStr []) TextField))))
     \<and> (\<forall>out. get_formfields_union db self plugins (Some as) = Inr out \<longrightarrow>
          length out = length (db q)
          \<and> (\<forall>k<length out.
                fst (out ! k) = (db q ! k) (ustr ''name'')
                \<and> (\<forall>a\<in>set as. \<exists>i<length as.
                      as ! i = a \<and> snd (out ! k) a = Some ((db q ! k) (alias_of i)))))"
proof (intro conjI ballI allI impI)
  note comps = union_query_components(1) [OF assms]
  show "map from_model (components q) = filter subclass_of_FormFieldBase plugins"
    unfolding comps by (simp add: comp_def)
  fix c assume c: "c \<in> set (components q)"
  then obtain p where cp: "c = \<lparr>from_model = p, parent_filter = Some (pk self),
                        annotated = annotations p (make_columns (Some as)),
                        projected = make_values (make_columns (Some as))\<rparr>"
    unfolding comps by auto
  show "projected c = ustr ''name'' # map alias_of [0..<length as]"
    by (simp add: cp make_values_Some)
  show "annotated c (ustr ''name'') = None"
    by (simp add: cp annotations_at_name)
  fix i assume i: "i < length as"
  show "annotated c (alias_of i) =
                  Some (if as ! i \<in> set (meta_fields (from_model c)) then F (as ! i)
                        else (case class_attributes (from_model c) (as ! i) of
                                Some v \<Rightarrow>
                                  if v \<noteq> PyNone then Value v TextField
                                  else if as ! i \<in> {ustr ''is_collapsible'',
                                                     ustr ''is_collapse_below'',
                                                     ustr ''is_collapsed_by_default''}
                                       then Value (PyBool False) BooleanField
                                       else Value (PyStr []) TextField
                              | None \<Rightarrow>
                                  if as ! i \<in> {ustr ''is_collapsible'',
                                                ustr ''is_collapse_below'',
                                                ustr ''is_collapsed_by_default''}
                                  then Value (PyBool False) BooleanField
                                  else Value (PyStr []) TextField))"
    using annotations_at_alias [OF i, of p] annotation_resolved [of p "as ! i"]
    by (simp add: cp)
next
  fix out assume "get_formfields_union db self plugins (Some as) = Inr out"
  then have out: "out = map (\<lambda>row. (row (ustr ''name''),
                               row_dict (make_columns (Some as))
                                 (map row (map fst (make_columns (Some as))))))
                      (db q)"
    unfolding get_formfields_union_rows [OF assms] by simp
  show "length out = length (db q)" by (simp add: out)
  fix k assume k: "k < length out"
  then have kk: "k < length (db q)" by (simp add: out)
  show "fst (out ! k) = (db q ! k) (ustr ''name'')" using kk by (simp add: out)
  fix a assume "a \<in> set as"
  from row_dict_value [OF this, of "db q ! k"]
  show "\<exists>i<length as. as ! i = a \<and> snd (out ! k) a = Some ((db q ! k) (alias_of i))"
    using kk by (simp add: out)
qed

theorem formfields_union_resolution_witness:
  "\<exists>q. union_query example_form [plaintext_model, simplefield_model, rating_model]
          (Some [ustr ''type'', ustr ''is_collapsible'', ustr ''colour'']) = Inr q
       \<and> map from_model (components q) = [simplefield_model, rating_model]
       \<and> map (\<lambda>c. map (\<lambda>i. annotated c (alias_of i)) [0, 1, 2]) (components q)
           = [[Some (F (ustr ''type'')), Some (Value (PyBool False) BooleanField),
               Some (Value (PyStr []) TextField)],
              [Some (Value (PyStr (ustr ''rating'')) TextField),
               Some (Value (PyBool False) BooleanField), Some (Value (PyStr []) TextField)]]
       \<and> (\<exists>out. get_formfields_union example_answer example_form
                   [plaintext_model, simplefield_model, rating_model]
                   (Some [ustr ''type'', ustr ''is_collapsible'', ustr ''colour'']) = Inr out
                \<and> length out = 3
                \<and> fst (out ! 0) = PyStr (ustr ''first'')
                \<and> snd (out ! 0) (ustr ''type'') = Some (PyStr (ustr ''text''))
                \<and> snd (out ! 2) (ustr ''type'') = Some (PyStr (ustr ''rating'')))"
proof -
  let ?plugins = "[plaintext_model, simplefield_model, rating_model]"
  let ?as = "[ustr ''type'', ustr ''is_collapsible'', ustr ''colour'']"
  have "filter subclass_of_FormFieldBase ?plugins \<noteq> []"
    unfolding example_filters by simp
  then obtain q where q: "union_query example_form ?plugins (Some ?as) = Inr q"
    using union_query_exists by blast
  note t = formfields_union_resolution [OF q, of example_answer]
  note t1 = t [THEN conjunct1]
  note t2 = t [THEN conjunct2, THEN conjunct1]
  note t3 = t [THEN conjunct2, THEN conjunct2, rule_format]
  have m: "map from_model (components q) = [simplefield_model, rating_model]"
    using t1 unfolding example_filters .
  then obtain c1 c2 where cs: "components q = [c1, c2]"
    and f: "from_model c1 = simplefield_model" "from_model c2 = rating_model"
    by (auto simp: map_eq_Cons_conv)
  have ann: "annotated c (alias_of i) =
                  Some (if ?as ! i \<in> set (meta_fields (from_model c)) then F (?as ! i)
                        else (case class_attributes (from_model c) (?as ! i) of
                                Some v \<Rightarrow>
                                  if v \<noteq> PyNone then Value v TextField
                                  else if ?as ! i \<in> {ustr ''is_collapsible'',
                                                     ustr ''is_collapse_below'',
                                                     ustr ''is_collapsed_by_default''}
                                       then Value (PyBool False) BooleanField
                                       else Value (PyStr []) TextField
                              | None \<Rightarrow>
                                  if ?as ! i \<in> {ustr ''is_collapsible'',
                                                ustr ''is_collapse_below'',
                                                ustr ''is_collapsed_by_default''}
                                  then Value (PyBool False) BooleanField
                                  else Value (PyStr []) TextField))"
    if "c \<in> set (components q)" "i < length ?as" for c i
    using t2 that by blast
  have in1: "c1 \<in> set (components q)" and in2: "c2 \<in> set (components q)"
    by (simp_all add: cs)
  have n3: "0 < length ?as" "1 < length ?as" "2 < length ?as" by simp_all
  have nth: "?as ! 0 = ustr ''type''" "?as ! 1 = ustr ''is_collapsible''"
    "?as ! 2 = ustr ''colour''" by simp_all
  have a1: "annotated c1 (alias_of 0) = Some (F (ustr ''type''))"
    "annotated c1 (alias_of 1) = Some (Value (PyBool False) BooleanField)"
    "annotated c1 (alias_of 2) = Some (Value (PyStr []) TextField)"
    unfolding ann [OF in1 n3(1)] ann [OF in1 n3(2)] ann [OF in1 n3(3)] nth f
    by (simp_all only: example_attributes example_names if_True if_False option.simps)
  have a2: "annotated c2 (alias_of 0) = Some (Value (PyStr (ustr ''rating'')) TextField)"
    "annotated c2 (alias_of 1) = Some (Value (PyBool False) BooleanField)"
    "annotated c2 (alias_of 2) = Some (Value (PyStr []) TextField)"
    unfolding ann [OF in2 n3(1)] ann [OF in2 n3(2)] ann [OF in2 n3(3)] nth f
    by (simp_all add: example_attributes example_names del: insert_iff)
  have anns: "map (\<lambda>c. map (\<lambda>i. annotated c (alias_of i)) [0, 1, 2]) (components q)
           = [[Some (F (ustr ''type'')), Some (Value (PyBool False) BooleanField),
               Some (Value (PyStr []) TextField)],
              [Some (Value (PyStr (ustr ''rating'')) TextField),
               Some (Value (PyBool False) BooleanField), Some (Value (PyStr []) TextField)]]"
    unfolding cs by (simp add: a1 a2 del: One_nat_def)
  obtain out where out: "get_formfields_union example_answer example_form ?plugins (Some ?as)
                           = Inr out"
    using get_formfields_union_rows [OF q] by blast
  have l: "length out = length (example_answer q)"
    using t3 [OF out] by blast
  have v: "fst (out ! k) = (example_answer q ! k) (ustr ''name'')"
    "\<exists>i<length ?as. ?as ! i = a \<and> snd (out ! k) a = Some ((example_answer q ! k) (alias_of i))"
    if "k < length out" "a \<in> set ?as" for k a
    using t3 [OF out] that by blast+
  have l3: "length out = 3" using l by (simp add: example_answer_rows)
  have only0: "i = 0" if "i < length ?as" "?as ! i = ustr ''type''" for i
  proof -
    from that(1) consider "i = 0" | "i = 1" | "i = 2" by fastforce
    then show ?thesis using that(2) example_names(3,4) by cases simp_all
  qed
  have k: "0 < length out" "2 < length out" using l3 by simp_all
  have ty: "ustr ''type'' \<in> set ?as" by simp
  have f0: "fst (out ! 0) = PyStr (ustr ''first'')"
    using v(1) [OF k(1) ty] by (simp only: example_answer_rows)
  from v(2) [OF k(1) ty] obtain i where
    "i < length ?as" "?as ! i = ustr ''type''"
    "snd (out ! 0) (ustr ''type'') = Some ((example_answer q ! 0) (alias_of i))"
    by blast
  with only0 [of i] have s0: "snd (out ! 0) (ustr ''type'') = Some (PyStr (ustr ''text''))"
    by (simp only: example_answer_rows)
  from v(2) [OF k(2) ty] obtain j where
    "j < length ?as" "?as ! j = ustr ''type''"
    "snd (out ! 2) (ustr ''type'') = Some ((example_answer q ! 2) (alias_of j))"
    by blast
  with only0 [of j] have s2: "snd (out ! 2) (ustr ''type'') = Some (PyStr (ustr ''rating''))"
    by (simp only: example_answer_rows)
  show ?thesis
    by (rule exI [of _ q], intro conjI q m anns, rule exI [of _ out], intro conjI out l3 f0 s0 s2)
qed

subsubsection \<open>Order, presence and arity\<close>

text \<open>
  Claim C2, as the code has it.  When \<^verbatim>\<open>plugins\<close> has a subclass of \<^verbatim>\<open>FormFieldBase\<close> the query is
  built and the operation returns a sequence.  The names in it are the names of the rows in
  the order the storage answers the combined query, which has no \<^verbatim>\<open>ORDER BY\<close>; the mapping of
  every pair has exactly the requested attributes as its keys; every component of the union
  projects the same list, \<^verbatim>\<open>name\<close> and one alias per requested attribute, every alias is
  annotated, and the alias of an attribute that the plugin type has neither as a field nor as
  a class attribute other than \<^verbatim>\<open>None\<close> is annotated with the default literal.
\<close>

theorem formfields_union_order_presence_arity:
  "(filter subclass_of_FormFieldBase plugins \<noteq> [] \<longrightarrow>
      (\<exists>q out. union_query self plugins (Some as) = Inr q
               \<and> get_formfields_union db self plugins (Some as) = Inr out))
   \<and> (union_query self plugins (Some as) = Inr q
        \<and> get_formfields_union db self plugins (Some as) = Inr out \<longrightarrow>
        map fst out = map (\<lambda>row. row (ustr ''name'')) (db q)
        \<and> (\<forall>entry\<in>set out. dom (snd entry) = set as)
        \<and> (\<forall>c\<in>set (components q).
              projected c = ustr ''name'' # map alias_of [0..<length as]
              \<and> (\<forall>n\<in>set (projected c). n \<noteq> ustr ''name'' \<longrightarrow> annotated c n \<noteq> None)
              \<and> (\<forall>i<length as.
                    as ! i \<notin> set (meta_fields (from_model c))
                    \<and> (class_attributes (from_model c) (as ! i) = None
                        \<or> class_attributes (from_model c) (as ! i) = Some PyNone) \<longrightarrow>
                    annotated c (alias_of i) =
                      Some (if as ! i \<in> {ustr ''is_collapsible'', ustr ''is_collapse_below'',
                                           ustr ''is_collapsed_by_default''}
                            then Value (PyBool False) BooleanField
                            else Value (PyStr []) TextField))))"
proof (intro conjI impI)
  assume "filter subclass_of_FormFieldBase plugins \<noteq> []"
  then obtain q' where q': "union_query self plugins (Some as) = Inr q'"
    using union_query_error_iff [of self plugins "Some as"]
    by (cases "union_query self plugins (Some as)") auto
  then show "\<exists>q out. union_query self plugins (Some as) = Inr q
               \<and> get_formfields_union db self plugins (Some as) = Inr out"
    using get_formfields_union_rows [OF q', of db] by blast
next
  assume a: "union_query self plugins (Some as) = Inr q
        \<and> get_formfields_union db self plugins (Some as) = Inr out"
  then have q: "union_query self plugins (Some as) = Inr q" by simp
  from a have out: "out = map (\<lambda>row. (row (ustr ''name''),
                               row_dict (make_columns (Some as))
                                 (map row (map fst (make_columns (Some as))))))
                      (db q)"
    unfolding get_formfields_union_rows [OF q] by simp
  note comps = union_query_components(1) [OF q]
  show "map fst out = map (\<lambda>row. row (ustr ''name'')) (db q)"
    by (simp add: out comp_def)
  have "dom (row_dict (make_columns (Some as)) (map row (map fst (make_columns (Some as)))))
          = set as" for row :: "pystr \<Rightarrow> pyval"
    using row_dict_dom [of "map row (map fst (make_columns (Some as)))" "make_columns (Some as)"]
      make_columns_snd [of as]
    by (metis length_map set_map)
  then show "\<forall>entry\<in>set out. dom (snd entry) = set as"
    by (auto simp: out)
  show "\<forall>c\<in>set (components q).
              projected c = ustr ''name'' # map alias_of [0..<length as]
              \<and> (\<forall>n\<in>set (projected c). n \<noteq> ustr ''name'' \<longrightarrow> annotated c n \<noteq> None)
              \<and> (\<forall>i<length as.
                    as ! i \<notin> set (meta_fields (from_model c))
                    \<and> (class_attributes (from_model c) (as ! i) = None
                        \<or> class_attributes (from_model c) (as ! i) = Some PyNone) \<longrightarrow>
                    annotated c (alias_of i) =
                      Some (if as ! i \<in> {ustr ''is_collapsible'', ustr ''is_collapse_below'',
                                           ustr ''is_collapsed_by_default''}
                            then Value (PyBool False) BooleanField
                            else Value (PyStr []) TextField))"
  proof (intro ballI conjI allI impI)
    fix c assume "c \<in> set (components q)"
    then obtain p where cp: "c = \<lparr>from_model = p, parent_filter = Some (pk self),
                        annotated = annotations p (make_columns (Some as)),
                        projected = make_values (make_columns (Some as))\<rparr>"
      unfolding comps by auto
    show "projected c = ustr ''name'' # map alias_of [0..<length as]"
      by (simp add: cp make_values_Some)
    show "annotated c n \<noteq> None" if "n \<in> set (projected c)" "n \<noteq> ustr ''name''" for n
    proof -
      from that obtain i where "i < length as" "n = alias_of i"
        by (auto simp: cp make_values_Some)
      then show ?thesis using annotations_at_alias [of i as p] by (simp add: cp)
    qed
    show "annotated c (alias_of i) =
                      Some (if as ! i \<in> {ustr ''is_collapsible'', ustr ''is_collapse_below'',
                                           ustr ''is_collapsed_by_default''}
                            then Value (PyBool False) BooleanField
                            else Value (PyStr []) TextField)"
      if "i < length as" and "as ! i \<notin> set (meta_fields (from_model c))
                    \<and> (class_attributes (from_model c) (as ! i) = None
                        \<or> class_attributes (from_model c) (as ! i) = Some PyNone)" for i
      using that annotations_at_alias [of i as p] annotation_resolved [of p "as ! i"]
      by (auto simp: cp)
  qed
qed

theorem formfields_union_order_presence_arity_witness:
  "\<exists>q out. union_query example_form [simplefield_model, plaintext_model, rating_model]
               (Some [ustr ''type'', ustr ''is_collapsible'']) = Inr q
           \<and> get_formfields_union example_answer example_form
                 [simplefield_model, plaintext_model, rating_model]
                 (Some [ustr ''type'', ustr ''is_collapsible'']) = Inr out
           \<and> map fst out
               = [PyStr (ustr ''first''), PyStr (ustr ''third''), PyStr (ustr ''second'')]
           \<and> list_all (\<lambda>entry. dom (snd entry) = set [ustr ''type'', ustr ''is_collapsible''])
                 out
           \<and> list_all (\<lambda>c. projected c = [ustr ''name'', alias_of 0, alias_of 1])
                 (components q)
           \<and> list_all (\<lambda>c. annotated c (alias_of 1)
                               = Some (Value (PyBool False) BooleanField))
                 (components q)"
proof -
  let ?plugins = "[simplefield_model, plaintext_model, rating_model]"
  let ?as = "[ustr ''type'', ustr ''is_collapsible'']"
  have ne: "filter subclass_of_FormFieldBase ?plugins \<noteq> []"
    unfolding example_filters by simp
  note e = formfields_union_order_presence_arity
      [where plugins = ?plugins and self = example_form and as = ?as and db = example_answer,
        THEN conjunct1, rule_format, OF ne]
  then obtain q out where q: "union_query example_form ?plugins (Some ?as) = Inr q"
    and out: "get_formfields_union example_answer example_form ?plugins (Some ?as) = Inr out"
    by blast
  note t = formfields_union_order_presence_arity
      [where plugins = ?plugins and self = example_form and as = ?as and db = example_answer
          and q = q and out = out, THEN conjunct2, rule_format, OF conjI [OF q out]]
  have o: "map fst out
           = [PyStr (ustr ''first''), PyStr (ustr ''third''), PyStr (ustr ''second'')]"
    using t [THEN conjunct1] by (simp only: example_answer_rows)
  have d: "list_all (\<lambda>entry. dom (snd entry) = set ?as) out"
    using t [THEN conjunct2, THEN conjunct1] by (simp only: list_all_iff)
  note t3 = t [THEN conjunct2, THEN conjunct2, rule_format]
  have up: "[0..<length ?as] = [0, 1]" by (simp add: upt_rec)
  have p: "list_all (\<lambda>c. projected c = [ustr ''name'', alias_of 0, alias_of 1]) (components q)"
    unfolding list_all_iff using t3 up by (metis list.simps(8,9))
  have comps: "map from_model (components q) = [simplefield_model, rating_model]"
    unfolding union_query_components(1) [OF q] example_filters by simp
  have fm: "from_model c = simplefield_model \<or> from_model c = rating_model"
    if "c \<in> set (components q)" for c
  proof -
    from that have "from_model c \<in> set (map from_model (components q))" by simp
    then show ?thesis unfolding comps by simp
  qed
  have i1: "1 < length ?as" and n1: "?as ! 1 = ustr ''is_collapsible''" by simp_all
  have a: "annotated c (alias_of 1) = Some (Value (PyBool False) BooleanField)"
    if c: "c \<in> set (components q)" for c
  proof -
    have "?as ! 1 \<notin> set (meta_fields (from_model c))
           \<and> (class_attributes (from_model c) (?as ! 1) = None
               \<or> class_attributes (from_model c) (?as ! 1) = Some PyNone)"
      unfolding n1 using fm [OF c] example_attributes(2,4,6,9) by metis
    from t3 [OF c, THEN conjunct2, THEN conjunct2, rule_format, OF i1 this]
    show ?thesis unfolding n1 by (simp only: example_names if_True)
  qed
  then have al: "list_all (\<lambda>c. annotated c (alias_of 1)
                               = Some (Value (PyBool False) BooleanField)) (components q)"
    by (simp only: list_all_iff) blast
  show ?thesis
    by (rule exI [of _ q], rule exI [of _ out]) (intro conjI q out o d p al)
qed

text \<open>
  Claim C2 as stated has the output in the order of the rows supplied.  The code does not
  order the query: the editor has placed the rating field (ordering 20) between the two
  simple fields (ordering 10 and 30), and a storage that answers the union table by table
  gives the two simple fields first.
\<close>

theorem formfields_union_not_in_editor_order:
  "map (\<lambda>row. column_values row (ustr ''name''))
       (sort_key ordering
          (filter (\<lambda>row. parent row = pk example_form)
                  (objects simplefield_model @ objects rating_model)))
     = [PyStr (ustr ''first''), PyStr (ustr ''second''), PyStr (ustr ''third'')]
   \<and> get_formfields_union table_by_table example_form [simplefield_model, rating_model] None
     = Inr [(PyStr (ustr ''first''), Map.empty), (PyStr (ustr ''third''), Map.empty),
            (PyStr (ustr ''second''), Map.empty)]"
proof
  show "map (\<lambda>row. column_values row (ustr ''name''))
       (sort_key ordering
          (filter (\<lambda>row. parent row = pk example_form)
                  (objects simplefield_model @ objects rating_model)))
     = [PyStr (ustr ''first''), PyStr (ustr ''second''), PyStr (ustr ''third'')]"
    by (simp add: simplefield_model_def rating_model_def example_form_def)
next
  have ne: "filter subclass_of_FormFieldBase [simplefield_model, rating_model] \<noteq> []"
    unfolding example_filters by simp
  show "get_formfields_union table_by_table example_form [simplefield_model, rating_model] None
     = Inr [(PyStr (ustr ''first''), Map.empty), (PyStr (ustr ''third''), Map.empty),
            (PyStr (ustr ''second''), Map.empty)]"
    unfolding table_by_table_names [OF ne] example_filters
    by (simp add: example_rows comp_def)
qed

subsubsection \<open>Plugin types that are no fields\<close>

text \<open>
  Claim C9.  An entry of \<^verbatim>\<open>plugins\<close> that is not a subclass of \<^verbatim>\<open>FormFieldBase\<close> changes nothing:
  the query gives the same result as on the list without such entries.  When no entry is a
  subclass of \<^verbatim>\<open>FormFieldBase\<close>, and so for the empty list, the query fails with
  \<^verbatim>\<open>IndexError\<close>; otherwise it returns a sequence.
\<close>

theorem formfields_union_skips_other_types:
  "get_formfields_union db self plugins attributes
     = get_formfields_union db self (filter subclass_of_FormFieldBase plugins) attributes
   \<and> (filter subclass_of_FormFieldBase plugins = [] \<longrightarrow>
        get_formfields_union db self plugins attributes = Inl IndexError)
   \<and> (filter subclass_of_FormFieldBase plugins \<noteq> [] \<longrightarrow>
        (\<exists>out. get_formfields_union db self plugins attributes = Inr out))
   \<and> get_formfields_union db self [] attributes = Inl IndexError"
proof (intro conjI impI)
  show "get_formfields_union db self plugins attributes
     = get_formfields_union db self (filter subclass_of_FormFieldBase plugins) attributes"
    unfolding get_formfields_union_def union_query_filter ..
  show "get_formfields_union db self plugins attributes = Inl IndexError"
    if "filter subclass_of_FormFieldBase plugins = []"
    using that by (simp add: get_formfields_union_error_iff)
  show "\<exists>out. get_formfields_union db self plugins attributes = Inr out"
    if "filter subclass_of_FormFieldBase plugins \<noteq> []"
  proof (cases "get_formfields_union db self plugins attributes")
    case (Inl e)
    with that show ?thesis by (simp add: get_formfields_union_error_iff)
  next
    case (Inr out)
    then show ?thesis by blast
  qed
  show "get_formfields_union db self [] attributes = Inl IndexError"
    by (simp add: get_formfields_union_error_iff)
qed

theorem formfields_union_skips_other_types_witness:
  "get_formfields_union table_by_table example_form
       [plaintext_model, simplefield_model, duration_model] None
     = get_formfields_union table_by_table example_form [simplefield_model] None
   \<and> get_formfields_union table_by_table example_form
         [plaintext_model, simplefield_model, duration_model] None
       = Inr [(PyStr (ustr ''first''), Map.empty), (PyStr (ustr ''third''), Map.empty)]
   \<and> get_formfields_union table_by_table example_form [plaintext_model, duration_model] None
       = Inl IndexError
   \<and> get_formfields_union table_by_table example_form [] None = Inl IndexError
   \<and> (\<exists>out. get_formfields_union table_by_table example_form
               [plaintext_model, simplefield_model] None = Inr out)"
proof -
  have f3: "filter subclass_of_FormFieldBase [plaintext_model, simplefield_model] \<noteq> []"
    and f1: "filter subclass_of_FormFieldBase [plaintext_model, simplefield_model, duration_model]
               \<noteq> []"
    unfolding example_filters by simp_all
  have v: "get_formfields_union table_by_table example_form
         [plaintext_model, simplefield_model, duration_model] None
       = Inr [(PyStr (ustr ''first''), Map.empty), (PyStr (ustr ''third''), Map.empty)]"
    unfolding table_by_table_names [OF f1] example_filters
    by (simp add: example_rows)
  show ?thesis
    using formfields_union_skips_other_types
        [of table_by_table example_form "[plaintext_model, simplefield_model, duration_model]"
          None]
      formfields_union_skips_other_types
        [of table_by_table example_form "[plaintext_model, duration_model]" None]
      formfields_union_skips_other_types [of table_by_table example_form "[]" None]
      formfields_union_skips_other_types
        [of table_by_table example_form "[plaintext_model, simplefield_model]" None]
    unfolding example_filters using f3 v by blast
qed

subsection \<open>Dotted paths on a form type\<close>

text \<open>What \<^verbatim>\<open>__init__\<close> guarantees, and the form types of the test application as it builds
  them.\<close>

lemma FormType_init_required:
  assumes "FormType_init kwargs = Inr t"
  shows "list_all (\<lambda>k. items t k \<noteq> None) REQUIRED" and "instance_dict t = Map.empty"
  using assms by (auto simp: FormType_init_def Let_def split: if_splits)

lemma FormType_init_key:
  assumes "FormType_init kwargs = Inr t"
  shows "\<exists>k. Type_getattr t (ustr ''key'') = Inr k"
proof -
  from FormType_init_required(1) [OF assms] have "items t (ustr ''key'') \<noteq> None"
    by (simp add: REQUIRED_def)
  then show ?thesis by (auto simp: Type_getattr_def)
qed

lemma contact_type_init:
  "FormType_init [ustr ''key'' \<mapsto> PyStr (ustr ''contact''),
                  ustr ''label'' \<mapsto> PyStr (ustr ''contact form''),
                  ustr ''regions'' \<mapsto> PyList [PyObj 1],
                  ustr ''validate'' \<mapsto> PyStr (ustr ''testapp.forms.validate_contact_form''),
                  ustr ''process'' \<mapsto> PyStr (ustr ''testapp.forms.process_contact_form'')]
     = Inr contact_type"
  by (simp add: FormType_init_def setdefault_def REQUIRED_def contact_type_def ustr_def Let_def)

lemma other_fields_type_init:
  "FormType_init [ustr ''key'' \<mapsto> PyStr (ustr ''other-fields''),
                  ustr ''label'' \<mapsto> PyStr (ustr ''other fields''),
                  ustr ''regions'' \<mapsto> PyList [],
                  ustr ''form_class'' \<mapsto> PyStr (ustr ''testapp.forms.OtherFieldsForm'')]
     = Inr other_fields_type"
  by (simp add: FormType_init_def setdefault_def REQUIRED_def other_fields_type_def ustr_def Let_def)

lemma FormType_init_missing:
  "FormType_init [ustr ''key'' \<mapsto> PyStr (ustr ''contact'')] = Inl TypeError"
  by (simp add: FormType_init_def setdefault_def REQUIRED_def ustr_def Let_def)

lemma dotted_path_has_dot: "dotted_path_match env s \<Longrightarrow> 46 \<in> set s"
proof -
  assume m: "dotted_path_match env s"
  then obtain rest where "dropWhile (word_char env) s = 46 # rest"
    by (auto simp: dotted_path_match_def split: list.splits)
  then have "46 \<in> set (dropWhile (word_char env) s)" by simp
  then show ?thesis by (meson set_dropWhileD)
qed

lemma dotted_path_rsplit:
  "dotted_path_match env s \<Longrightarrow> \<exists>module_path class_name. rsplit_dot s = Some (module_path, class_name)"
  by (simp add: rsplit_dot_def dotted_path_has_dot)

lemma attribute_access_cached:
  "attribute_access env (self\<lparr>instance_dict := (instance_dict self)(attr \<mapsto> v)\<rparr>) attr
     = Inr (v, self\<lparr>instance_dict := (instance_dict self)(attr \<mapsto> v)\<rparr>)"
  by (simp add: attribute_access_def)

lemma FormType_getattr_string:
  assumes "instance_dict self attr = None" and "items self attr = Some (PyStr s)"
    and "dotted_path_match env s"
  shows "attribute_access env self attr =
           (case import_string env s of
              Inl (ModuleNotFoundError m) \<Rightarrow>
                Inr (PyStr s, self\<lparr>instance_dict := (instance_dict self)(attr \<mapsto> PyStr s)\<rparr>)
            | Inl e \<Rightarrow> Inl e
            | Inr v \<Rightarrow> Inr (v, self\<lparr>instance_dict := (instance_dict self)(attr \<mapsto> v)\<rparr>))"
  using assms
  by (simp add: attribute_access_def FormType_getattr_def Type_getattr_def
      split: sum.splits error.splits)

text \<open>
  Claim C3, as the code has it.  Take an attribute of a form type that has not been read yet
  and whose stored value is a string matching the dotted pattern.  When the module of the path
  is found and has the attribute, the first access returns the object and stores it on the
  instance, and a second access returns the same object whatever the modules are then.  When
  the import of the module fails with \<^verbatim>\<open>ModuleNotFoundError\<close>, the access returns the string as
  it is (and stores it), and raises nothing.  When the module is found and has no such
  attribute, the access raises \<^verbatim>\<open>ImportError\<close>.
\<close>

theorem FormType_dotted_path_resolution:
  assumes "instance_dict self attr = None"
    and "items self attr = Some (PyStr s)"
    and "dotted_path_match env s"
    and "rsplit_dot s = Some (module_path, class_name)"
  shows
    "(import_module env module_path = Inr module \<and> module class_name = Some v \<longrightarrow>
        attribute_access env self attr
          = Inr (v, self\<lparr>instance_dict := (instance_dict self)(attr \<mapsto> v)\<rparr>)
        \<and> (\<forall>env'. attribute_access env'
                     (self\<lparr>instance_dict := (instance_dict self)(attr \<mapsto> v)\<rparr>) attr
                   = Inr (v, self\<lparr>instance_dict := (instance_dict self)(attr \<mapsto> v)\<rparr>)))
     \<and> (import_module env module_path = Inl (ModuleNotFoundError m) \<longrightarrow>
        attribute_access env self attr
          = Inr (PyStr s, self\<lparr>instance_dict := (instance_dict self)(attr \<mapsto> PyStr s)\<rparr>)
        \<and> (\<forall>env'. attribute_access env'
                     (self\<lparr>instance_dict := (instance_dict self)(attr \<mapsto> PyStr s)\<rparr>) attr
                   = Inr (PyStr s,
                          self\<lparr>instance_dict := (instance_dict self)(attr \<mapsto> PyStr s)\<rparr>)))
     \<and> (import_module env module_path = Inr module \<and> module class_name = None \<longrightarrow>
        attribute_access env self attr = Inl (ImportError s))"
proof (intro conjI impI allI)
  note a = FormType_getattr_string [OF assms(1-3)]
  show "attribute_access env self attr
          = Inr (v, self\<lparr>instance_dict := (instance_dict self)(attr \<mapsto> v)\<rparr>)"
    if "import_module env module_path = Inr module \<and> module class_name = Some v"
    using that assms(4) unfolding a by (simp add: import_string_def)
  show "attribute_access env self attr
          = Inr (PyStr s, self\<lparr>instance_dict := (instance_dict self)(attr \<mapsto> PyStr s)\<rparr>)"
    if "import_module env module_path = Inl (ModuleNotFoundError m)"
    using that assms(4) unfolding a by (simp add: import_string_def)
  show "attribute_access env self attr = Inl (ImportError s)"
    if "import_module env module_path = Inr module \<and> module class_name = None"
    using that assms(4) unfolding a by (simp add: import_string_def)
qed (rule attribute_access_cached)+

theorem FormType_dotted_path_resolution_witness:
  "attribute_access example_env contact_type (ustr ''validate'')
     = Inr (PyCallable 10,
            contact_type\<lparr>instance_dict :=
              (instance_dict contact_type)(ustr ''validate'' \<mapsto> PyCallable 10)\<rparr>)
   \<and> attribute_access empty_env
         (contact_type\<lparr>instance_dict :=
            (instance_dict contact_type)(ustr ''validate'' \<mapsto> PyCallable 10)\<rparr>)
         (ustr ''validate'')
     = Inr (PyCallable 10,
            contact_type\<lparr>instance_dict :=
              (instance_dict contact_type)(ustr ''validate'' \<mapsto> PyCallable 10)\<rparr>)
   \<and> attribute_access example_env plain_label_type (ustr ''validate'')
     = Inr (PyStr (ustr ''nomodule.hook''),
            plain_label_type\<lparr>instance_dict :=
              (instance_dict plain_label_type)
                (ustr ''validate'' \<mapsto> PyStr (ustr ''nomodule.hook''))\<rparr>)"
proof -
  let ?M = "[ustr ''validate_contact_form'' \<mapsto> PyCallable 10,
             ustr ''process_contact_form'' \<mapsto> PyCallable 11,
             ustr ''OtherFieldsForm'' \<mapsto> PyCallable 12]"
  have a1: "instance_dict contact_type (ustr ''validate'') = None"
    by (simp add: contact_type_def)
  have a2: "items contact_type (ustr ''validate'')
              = Some (PyStr (ustr ''testapp.forms.validate_contact_form''))"
    by (simp add: contact_type_def ustr_def)
  have a3: "dotted_path_match example_env (ustr ''testapp.forms.validate_contact_form'')"
    by (simp add: dotted_path_match_def word_char_def example_env_def ustr_def)
  have a4: "rsplit_dot (ustr ''testapp.forms.validate_contact_form'')
              = Some (ustr ''testapp.forms'', ustr ''validate_contact_form'')"
    by (simp add: rsplit_dot_def ustr_def)
  have a5: "import_module example_env (ustr ''testapp.forms'') = Inr ?M"
    by (simp add: example_env_def)
  have a6: "?M (ustr ''validate_contact_form'') = Some (PyCallable 10)"
    by (simp add: ustr_def)
  have b1: "instance_dict plain_label_type (ustr ''validate'') = None"
    by (simp add: plain_label_type_def contact_type_def)
  have b2: "items plain_label_type (ustr ''validate'') = Some (PyStr (ustr ''nomodule.hook''))"
    by (simp add: plain_label_type_def)
  have b3: "dotted_path_match example_env (ustr ''nomodule.hook'')"
    by (simp add: dotted_path_match_def word_char_def example_env_def ustr_def)
  have b4: "rsplit_dot (ustr ''nomodule.hook'') = Some (ustr ''nomodule'', ustr ''hook'')"
    by (simp add: rsplit_dot_def ustr_def)
  have b5: "import_module example_env (ustr ''nomodule'')
              = Inl (ModuleNotFoundError (ustr ''nomodule''))"
    by (simp add: example_env_def ustr_def)
  show ?thesis
    using FormType_dotted_path_resolution [OF a1 a2 a3 a4, of ?M "PyCallable 10"] a5 a6
      FormType_dotted_path_resolution [OF b1 b2 b3 b4, of _ _ "ustr ''nomodule''"] b5
    by blast
qed

text \<open>
  Claim C3 as stated has the string returned unchanged also when the attribute is not found.
  On the form type whose \<^verbatim>\<open>validate\<close> names a missing attribute of an existing module the
  access raises \<^verbatim>\<open>ImportError\<close> instead.
\<close>

theorem FormType_missing_attribute_raises:
  "dotted_path_match example_env (ustr ''testapp.forms.missing_hook'')
   \<and> items broken_hook_type (ustr ''validate'')
       = Some (PyStr (ustr ''testapp.forms.missing_hook''))
   \<and> instance_dict broken_hook_type (ustr ''validate'') = None
   \<and> (case import_module example_env (ustr ''testapp.forms'') of
         Inl e \<Rightarrow> False
       | Inr module \<Rightarrow> module (ustr ''missing_hook'') = None)
   \<and> attribute_access example_env broken_hook_type (ustr ''validate'')
       = Inl (ImportError (ustr ''testapp.forms.missing_hook''))
   \<and> \<not> (\<exists>t. attribute_access example_env broken_hook_type (ustr ''validate'')
               = Inr (PyStr (ustr ''testapp.forms.missing_hook''), t))"
proof -
  have m: "dotted_path_match example_env (ustr ''testapp.forms.missing_hook'')"
    by (simp add: dotted_path_match_def word_char_def example_env_def ustr_def)
  have i: "items broken_hook_type (ustr ''validate'')
       = Some (PyStr (ustr ''testapp.forms.missing_hook''))"
    by (simp add: broken_hook_type_def)
  have d: "instance_dict broken_hook_type (ustr ''validate'') = None"
    by (simp add: broken_hook_type_def contact_type_def)
  have im: "(case import_module example_env (ustr ''testapp.forms'') of
         Inl e \<Rightarrow> False
       | Inr module \<Rightarrow> module (ustr ''missing_hook'') = None)"
    by (simp add: example_env_def ustr_def)
  have s: "import_string example_env (ustr ''testapp.forms.missing_hook'')
             = Inl (ImportError (ustr ''testapp.forms.missing_hook''))"
    by (simp add: import_string_def rsplit_dot_def example_env_def ustr_def)
  have r: "attribute_access example_env broken_hook_type (ustr ''validate'')
       = Inl (ImportError (ustr ''testapp.forms.missing_hook''))"
    unfolding FormType_getattr_string [OF d i m] s by simp
  show ?thesis using m i d im r by simp
qed


subsection \<open>Regions of an unknown form type\<close>

lemma build_types_dom:
  "build_types env ts acc = Inr (tys, ts') \<Longrightarrow>
   dom tys = dom acc \<union> {k. \<exists>t\<in>set ts. \<exists>t'. attribute_access env t (ustr ''key'') = Inr (k, t')}"
proof (induction ts arbitrary: acc tys ts')
  case Nil
  then show ?case by simp
next
  case (Cons t ts)
  from Cons.prems obtain k t1 tys1 ts1 where
    k: "attribute_access env t (ustr ''key'') = Inr (k, t1)"
    and r: "build_types env ts (acc(k \<mapsto> t1)) = Inr (tys1, ts1)"
    and e: "tys = tys1"
    by (auto split: sum.splits prod.splits)
  have "dom tys = dom (acc(k \<mapsto> t1))
          \<union> {k. \<exists>t\<in>set ts. \<exists>t'. attribute_access env t (ustr ''key'') = Inr (k, t')}"
    unfolding e by (rule Cons.IH [OF r])
  also have "dom (acc(k \<mapsto> t1)) = insert k (dom acc)" by simp
  also have "insert k (dom acc)
          \<union> {k. \<exists>t\<in>set ts. \<exists>t'. attribute_access env t (ustr ''key'') = Inr (k, t')}
        = dom acc
          \<union> {k. \<exists>t\<in>set (t # ts). \<exists>t'. attribute_access env t (ustr ''key'') = Inr (k, t')}"
    using k by auto
  finally show ?case .
qed

text \<open>
  Claim C10.  Let a concrete subclass of \<^verbatim>\<open>ConfiguredForm\<close> be prepared from its \<^verbatim>\<open>FORMS\<close>.  For a
  form whose \<^verbatim>\<open>form_type\<close> is the key of none of the form types, \<^verbatim>\<open>regions\<close> is the empty list,
  not a failure.
\<close>

theorem regions_unknown_form_type:
  assumes "fill_form_choices env sender = Inr cls"
    and "is_ConfiguredForm_subclass sender" and "\<not> meta_abstract sender"
    and "\<forall>t\<in>set (FORMS sender). \<forall>t'.
           attribute_access env t (ustr ''key'') \<noteq> Inr (PyStr (form_type self), t')"
  shows "regions env cls self = Inr (PyList [], cls)"
proof -
  from assms(1-3) obtain cs tys ts' where
    b: "build_types env (FORMS sender) Map.empty = Inr (tys, ts')"
    and c: "cls = sender\<lparr>FORMS := ts', form_type_choices := cs, types := Some tys\<rparr>"
    by (auto simp: fill_form_choices_def split: sum.splits prod.splits)
  from build_types_dom [OF b] assms(4) have "PyStr (form_type self) \<notin> dom tys"
    by auto
  then have "tys (PyStr (form_type self)) = None" by blast
  then show ?thesis by (simp add: regions_def c)
qed

theorem regions_unknown_form_type_witness:
  "\<exists>cls. fill_form_choices example_env example_model = Inr cls
         \<and> regions example_env cls \<lparr>pk = 7, name = ustr ''News'', form_type = ustr ''newsletter''\<rparr>
             = Inr (PyList [], cls)"
proof -
  let ?self = "\<lparr>pk = 7, name = ustr ''News'', form_type = ustr ''newsletter''\<rparr>"
  have k1: "attribute_access example_env contact_type (ustr ''key'')
              = Inr (PyStr (ustr ''contact''),
                     contact_type\<lparr>instance_dict := [ustr ''key'' \<mapsto> PyStr (ustr ''contact'')]\<rparr>)"
    by (simp add: attribute_access_def FormType_getattr_def Type_getattr_def contact_type_def
        dotted_path_match_def word_char_def ustr_def)
  have k2: "attribute_access example_env other_fields_type (ustr ''key'')
              = Inr (PyStr (ustr ''other-fields''),
                     other_fields_type\<lparr>instance_dict :=
                       [ustr ''key'' \<mapsto> PyStr (ustr ''other-fields'')]\<rparr>)"
    by (simp add: attribute_access_def FormType_getattr_def Type_getattr_def
        other_fields_type_def dotted_path_match_def word_char_def ustr_def)
  have rc: "\<exists>cs. row_choices [contact_type, other_fields_type] = Inr cs"
    by (simp add: contact_type_def other_fields_type_def ustr_def)
  have "\<exists>cls. fill_form_choices example_env example_model = Inr cls"
    using rc by (auto simp: fill_form_choices_def example_model_def k1 k2)
  then obtain cls where f: "fill_form_choices example_env example_model = Inr cls" ..
  have s: "is_ConfiguredForm_subclass example_model" "\<not> meta_abstract example_model"
    by (simp_all add: example_model_def)
  have n: "\<forall>t\<in>set (FORMS example_model). \<forall>t'.
           attribute_access example_env t (ustr ''key'') \<noteq> Inr (PyStr (form_type ?self), t')"
    by (simp add: example_model_def k1 k2) (simp add: ustr_def)
  from regions_unknown_form_type [OF f s n] f show ?thesis by blast
qed

end
